theory Spec2Isabelle
  imports Main "HOL-Library.Word"
begin

unbundle bit_operations_syntax

section \<open>JavaScript strings and the string primitives the generator calls\<close>

text \<open>
  A JavaScript string is a sequence of UTF-16 code units; \<open>length\<close>, \<open>substring\<close>,
  \<open>split\<close> and \<open>===\<close> all work on code units. A Buffer is a sequence of bytes.
  ASCII literals of the source are written with \<open>str\<close>; the Chinese literals are
  written as their code units (every one of them is a single unit of the Basic
  Multilingual Plane).
\<close>

type_synonym jsstring = "16 word list"
type_synonym buffer = "8 word list"

definition str :: "string \<Rightarrow> jsstring" where
  "str s = map of_char s"

text \<open>\<open>String.prototype.split\<close> with a one-unit separator.\<close>

fun js_split :: "16 word \<Rightarrow> jsstring \<Rightarrow> jsstring list" where
  "js_split sep [] = [[]]"
| "js_split sep (c # cs) =
     (if c = sep then [] # js_split sep cs
      else (case js_split sep cs of [] \<Rightarrow> [[c]] | p # ps \<Rightarrow> (c # p) # ps))"

text \<open>The code units ECMAScript counts as white space or line terminator.\<close>

definition isWhiteSpace :: "16 word \<Rightarrow> bool" where
  "isWhiteSpace c \<longleftrightarrow>
     c \<in> set [0x9, 0xA, 0xB, 0xC, 0xD, 0x20, 0xA0, 0x1680, 0x2028, 0x2029, 0x202F, 0x205F,
              0x3000, 0xFEFF]
     \<or> (0x2000 \<le> c \<and> c \<le> 0x200A)"

definition trim :: "jsstring \<Rightarrow> jsstring" where
  "trim s = rev (dropWhile isWhiteSpace (rev (dropWhile isWhiteSpace s)))"

text \<open>
  \<open>parseInt(s)\<close> without a radix: leading white space is skipped, one sign is read,
  a \<open>0x\<close>/\<open>0X\<close> prefix selects radix 16, and the longest run of digits is read.
  \<open>None\<close> is NaN; \<open>Some v\<close> is the mathematical integer that is then converted to
  a Number.
\<close>

definition digitValue :: "16 word \<Rightarrow> nat" where
  "digitValue c =
     (if 0x30 \<le> c \<and> c \<le> 0x39 then unat c - 0x30
      else if 0x61 \<le> c \<and> c \<le> 0x7A then unat c - 0x57
      else if 0x41 \<le> c \<and> c \<le> 0x5A then unat c - 0x37
      else 36)"

definition parseInt :: "jsstring \<Rightarrow> int option" where
  "parseInt s =
     (let S = dropWhile isWhiteSpace s;
          sign = (if S \<noteq> [] \<and> hd S = 0x2D then - 1 else 1 :: int);
          S1 = (if S \<noteq> [] \<and> (hd S = 0x2B \<or> hd S = 0x2D) then tl S else S);
          hex = (take 2 S1 = str ''0x'' \<or> take 2 S1 = str ''0X'');
          R = (if hex then 16 else 10);
          S2 = (if hex then drop 2 S1 else S1);
          Z = takeWhile (\<lambda>c. digitValue c < R) S2
      in if Z = [] then None
         else Some (sign * int (foldl (\<lambda>a c. a * R + digitValue c) 0 Z)))"

text \<open>
  Storing a Number into a Buffer element: the integer is first rounded to a double
  (round to nearest, ties to even, 53 significant bits), then reduced modulo 256; NaN
  stores 0. Every double of magnitude \<open>2 ^ 61\<close> or more, and infinity, stores 0, which
  is also what the rounded integer gives modulo 256.
\<close>

fun bitLength :: "nat \<Rightarrow> nat" where
  "bitLength n = (if n = 0 then 0 else Suc (bitLength (n div 2)))"

declare bitLength.simps [simp del]

definition toDouble :: "int \<Rightarrow> int" where
  "toDouble v =
     (let n = nat \<bar>v\<bar> in
      if n < 2 ^ 53 then v
      else let e = bitLength n - 53;
               q = n div 2 ^ e;
               r = n mod 2 ^ e;
               h = 2 ^ (e - 1);
               q' = (if h < r \<or> (r = h \<and> odd q) then q + 1 else q)
           in sgn v * int (q' * 2 ^ e))"

definition toUint8 :: "int option \<Rightarrow> 8 word" where
  "toUint8 x = (case x of None \<Rightarrow> 0 | Some v \<Rightarrow> word_of_int (toDouble v))"

text \<open>
  \<open>Buffer.from(s, 'utf-8')\<close>: surrogate pairs are combined, a lone surrogate is
  replaced by U+FFFD, and each code point is written in 1 to 4 bytes.
\<close>

definition isHighSurrogate :: "16 word \<Rightarrow> bool" where
  "isHighSurrogate c \<longleftrightarrow> 0xD800 \<le> c \<and> c \<le> 0xDBFF"

definition isLowSurrogate :: "16 word \<Rightarrow> bool" where
  "isLowSurrogate c \<longleftrightarrow> 0xDC00 \<le> c \<and> c \<le> 0xDFFF"

definition scalarValue :: "16 word \<Rightarrow> nat" where
  "scalarValue c = (if isHighSurrogate c \<or> isLowSurrogate c then 0xFFFD else unat c)"

fun codePoints :: "jsstring \<Rightarrow> nat list" where
  "codePoints [] = []"
| "codePoints [c] = [scalarValue c]"
| "codePoints (c # d # ds) =
     (if isHighSurrogate c \<and> isLowSurrogate d
      then (0x10000 + (unat c - 0xD800) * 0x400 + (unat d - 0xDC00)) # codePoints ds
      else scalarValue c # codePoints (d # ds))"

definition utf8CodePoint :: "nat \<Rightarrow> buffer" where
  "utf8CodePoint cp =
     (if cp < 0x80 then [of_nat cp]
      else if cp < 0x800 then [of_nat (0xC0 + cp div 0x40), of_nat (0x80 + cp mod 0x40)]
      else if cp < 0x10000 then
        [of_nat (0xE0 + cp div 0x1000), of_nat (0x80 + cp div 0x40 mod 0x40),
         of_nat (0x80 + cp mod 0x40)]
      else
        [of_nat (0xF0 + cp div 0x40000), of_nat (0x80 + cp div 0x1000 mod 0x40),
         of_nat (0x80 + cp div 0x40 mod 0x40), of_nat (0x80 + cp mod 0x40)])"

definition Buffer_from_utf8 :: "jsstring \<Rightarrow> buffer" where
  "Buffer_from_utf8 s = concat (map utf8CodePoint (codePoints s))"

section \<open>The parts of the runtime that are not code of the generator\<close>

text \<open>
  The generator calls four things whose tables are outside the repository: Unicode
  upper-casing (\<open>toUpperCase\<close>), the \<open>pinyin\<close> package, UTF-8 decoding of the input
  file (\<open>readFileSync(f, 'utf-8')\<close>), and the text a member inherited from
  \<open>Object.prototype\<close> prints as. They are parameters of the model: every theorem
  holds for whatever these functions are.
\<close>

record runtime =
  toUpperCase :: "jsstring \<Rightarrow> jsstring"
  pinyin :: "jsstring \<Rightarrow> jsstring list list"
  decodeUtf8 :: "buffer \<Rightarrow> jsstring"
  memberToString :: "jsstring \<Rightarrow> jsstring"

section \<open>Code Normalizer\<close>

text \<open>
  \<open>pinyinMap\<close> is one object literal; the source groups its keys under two comments,
  carriers first, regions second.
\<close>

definition carrierEntries :: "(jsstring \<times> jsstring) list" where
  "carrierEntries =
     [([0x7535, 0x4FE1], str ''DX''),
      ([0x8054, 0x901A], str ''LT''),
      ([0x79FB, 0x52A8], str ''YD''),
      ([0x94C1, 0x901A], str ''TT''),
      ([0x534E, 0x6570], str ''HS''),
      ([0x672A, 0x77E5], str ''UN'')]"

definition regionEntries :: "(jsstring \<times> jsstring) list" where
  "regionEntries =
     [([0x5317, 0x4EAC], str ''BJ''),
      ([0x4E0A, 0x6D77], str ''SH''),
      ([0x5929, 0x6D25], str ''TJ''),
      ([0x91CD, 0x5E86], str ''CQ''),
      ([0x5E7F, 0x4E1C], str ''GD''),
      ([0x6D59, 0x6C5F], str ''ZJ''),
      ([0x6C5F, 0x82CF], str ''JS''),
      ([0x5C71, 0x4E1C], str ''SD''),
      ([0x798F, 0x5EFA], str ''FJ''),
      ([0x5B89, 0x5FBD], str ''AH''),
      ([0x6CB3, 0x5357], str ''HA''),
      ([0x6E56, 0x5317], str ''HB''),
      ([0x6E56, 0x5357], str ''HN''),
      ([0x6C5F, 0x897F], str ''JX''),
      ([0x56DB, 0x5DDD], str ''SC''),
      ([0x9655, 0x897F], str ''SN''),
      ([0x5C71, 0x897F], str ''SX''),
      ([0x8FBD, 0x5B81], str ''LN''),
      ([0x5409, 0x6797], str ''JL''),
      ([0x9ED1, 0x9F99, 0x6C5F], str ''HL''),
      ([0x6CB3, 0x5317], str ''HE''),
      ([0x53F0, 0x6E7E], str ''TW''),
      ([0x6D77, 0x5357], str ''HI''),
      ([0x7518, 0x8083], str ''GS''),
      ([0x5B81, 0x590F], str ''NX''),
      ([0x9752, 0x6D77], str ''QH''),
      ([0x65B0, 0x7586], str ''XJ''),
      ([0x897F, 0x85CF], str ''XZ''),
      ([0x5185, 0x8499, 0x53E4], str ''NM''),
      ([0x5E7F, 0x897F], str ''GX''),
      ([0x8D35, 0x5DDE], str ''GZ''),
      ([0x4E91, 0x5357], str ''YN''),
      ([0x9999, 0x6E2F], str ''HK''),
      ([0x6FB3, 0x95E8], str ''MO'')]"

definition pinyinMap :: "(jsstring \<times> jsstring) list" where
  "pinyinMap = carrierEntries @ regionEntries"

text \<open>
  \<open>pinyinMap[k]\<close> on a plain object: an own property gives its string; otherwise a
  member inherited from \<open>Object.prototype\<close> is found (a function or object, never a
  string); otherwise the value is \<open>undefined\<close> (\<open>None\<close>).
\<close>

datatype jsvalue = Str jsstring | ObjectPrototypeMember jsstring

definition objectPrototypeKeys :: "jsstring list" where
  "objectPrototypeKeys =
     [str ''constructor'', str ''__defineGetter__'', str ''__defineSetter__'',
      str ''hasOwnProperty'', str ''__lookupGetter__'', str ''__lookupSetter__'',
      str ''isPrototypeOf'', str ''propertyIsEnumerable'', str ''toString'',
      str ''valueOf'', str ''__proto__'', str ''toLocaleString'']"

definition pinyinMap_get :: "jsstring \<Rightarrow> jsvalue option" where
  "pinyinMap_get k =
     (case map_of pinyinMap k of
        Some v \<Rightarrow> Some (Str v)
      | None \<Rightarrow> (if k \<in> set objectPrototypeKeys then Some (ObjectPrototypeMember k) else None))"

text \<open>\<open>a || b\<close>: \<open>a\<close> when it is truthy (a non-empty string, or any object).\<close>

fun truthy :: "jsvalue \<Rightarrow> bool" where
  "truthy (Str s) = (s \<noteq> [])"
| "truthy (ObjectPrototypeMember k) = True"

definition or_else :: "jsvalue option \<Rightarrow> jsvalue \<Rightarrow> jsvalue" where
  "or_else a b = (case a of None \<Rightarrow> b | Some v \<Rightarrow> (if truthy v then v else b))"

text \<open>What a template literal prints for a value.\<close>

fun toString :: "runtime \<Rightarrow> jsvalue \<Rightarrow> jsstring" where
  "toString rt (Str s) = s"
| "toString rt (ObjectPrototypeMember k) = memberToString rt k"

definition zhongguo :: jsstring where
  "zhongguo = [0x4E2D, 0x56FD]"

definition weizhi :: jsstring where
  "weizhi = [0x672A, 0x77E5]"

definition getStandardCountryCode :: "jsstring \<Rightarrow> jsstring option" where
  "getStandardCountryCode countryName =
     (if countryName = zhongguo then Some (str ''CN'') else None)"

definition getStandardRegionCode :: "runtime \<Rightarrow> jsstring \<Rightarrow> jsvalue" where
  "getStandardRegionCode rt regionName =
     or_else (pinyinMap_get regionName) (Str (toUpperCase rt (take 3 regionName)))"

definition getIspCode :: "jsstring \<Rightarrow> jsvalue" where
  "getIspCode ispName =
     (if length ispName \<ge> 2 then
        (let prefix = take 2 ispName in or_else (pinyinMap_get prefix) (Str (str ''UN'')))
      else if length ispName = 1 then or_else (pinyinMap_get ispName) (Str (str ''UN''))
      else Str (str ''UN''))"

definition getCityPinyin :: "runtime \<Rightarrow> jsstring \<Rightarrow> jsstring" where
  "getCityPinyin rt cityName = (let pinyinArray = pinyin rt cityName in concat (concat pinyinArray))"

text \<open>
  The source gives \<open>ipVersion\<close> and \<open>ispDomain\<close> default values; its only caller passes
  all five arguments, and so does the model.
\<close>

definition createCountryCodes ::
  "runtime \<Rightarrow> jsstring \<Rightarrow> jsstring \<Rightarrow> jsstring \<Rightarrow> jsstring \<Rightarrow> jsstring \<Rightarrow> jsstring list" where
  "createCountryCodes rt countryName regionName cityName ipVersion ispDomain =
     (case getStandardCountryCode countryName of
        None \<Rightarrow> []
      | Some country \<Rightarrow>
          (let region = getStandardRegionCode rt regionName;
               ispCode = getIspCode ispDomain;
               simplifiedFormat =
                 ipVersion @ str ''-'' @ toString rt ispCode @ str ''-'' @ toString rt region
           in if cityName \<noteq> [] \<and> cityName \<noteq> regionName
              then [simplifiedFormat,
                    ipVersion @ str ''-'' @ toString rt ispCode @ str ''-'' @ toString rt region
                      @ str ''-'' @ getCityPinyin rt cityName]
              else [simplifiedFormat]))"

section \<open>Record Parser\<close>

record georecord =
  country_name :: jsstring
  region_name :: jsstring
  city_name :: jsstring
  isp_domain :: jsstring

text \<open>\<open>a || b\<close> on two strings: \<open>a\<close> unless it is empty.\<close>

definition or_str :: "jsstring \<Rightarrow> jsstring \<Rightarrow> jsstring" where
  "or_str a b = (if a \<noteq> [] then a else b)"

definition parseIpdbEntry :: "jsstring \<Rightarrow> georecord option" where
  "parseIpdbEntry dataEntry =
     (let parts = js_split 0x9 dataEntry in
      if length parts < 4 then None
      else Some \<lparr>country_name = or_str (parts ! 0) weizhi,
                 region_name = or_str (parts ! 1) weizhi,
                 city_name = or_str (parts ! 2) (parts ! 1),
                 isp_domain = or_str (parts ! 3) weizhi\<rparr>)"

text \<open>
  The plain-text branch of the driver's loop body (source lines 238 to 246), which the
  source writes inline: the line is trimmed and split on the pipe character.
\<close>

definition parseTextLine :: "jsstring \<Rightarrow> georecord option" where
  "parseTextLine line =
     (let parts = js_split 0x7C (trim line) in
      if length parts < 4 then None
      else (let country = parts ! 0;
                region = parts ! 1;
                city = or_str (parts ! 2) region;
                ispDomain = or_str (parts ! 3) weizhi
            in Some \<lparr>country_name = country, region_name = region, city_name = city,
                      isp_domain = ispDomain\<rparr>))"

section \<open>Binary Encoder\<close>

text \<open>
  \<open>writeUInt32LE\<close> raises a range error outside \<open>0 .. 2^32 - 1\<close>; an exception is the
  \<open>Inl\<close> branch of every function that can meet it.
\<close>

datatype error = ERR_OUT_OF_RANGE

definition writeUInt32LE :: "int \<Rightarrow> error + buffer" where
  "writeUInt32LE v =
     (if 0 \<le> v \<and> v \<le> 0xFFFFFFFF
      then Inr [word_of_int v, word_of_int (v div 0x100), word_of_int (v div 0x10000),
                word_of_int (v div 0x1000000)]
      else Inl ERR_OUT_OF_RANGE)"

definition writeString :: "jsstring \<Rightarrow> error + buffer" where
  "writeString s =
     (let strBuffer = Buffer_from_utf8 s in
      case writeUInt32LE (int (length strBuffer)) of
        Inl e \<Rightarrow> Inl e
      | Inr lenBuffer \<Rightarrow> Inr (lenBuffer @ strBuffer))"

text \<open>
  A CIDR is the pair the source builds, \<open>[address string, prefix length]\<close>. The prefix
  length is an unsigned 32-bit value: this is the range \<open>writeUInt32LE\<close> accepts, and the
  generator itself only ever passes 24.
\<close>

type_synonym cidr = "jsstring \<times> 32 word"

definition writeCidr :: "jsstring \<Rightarrow> 32 word \<Rightarrow> error + buffer" where
  "writeCidr ip prefixLen =
     (let ipParts = js_split 0x2E ip;
          ipBuffer =
            (if length ipParts = 4
             then (replicate 4 0)
                    [0 := toUint8 (parseInt (ipParts ! 0)),
                     1 := toUint8 (parseInt (ipParts ! 1)),
                     2 := toUint8 (parseInt (ipParts ! 2)),
                     3 := toUint8 (parseInt (ipParts ! 3))]
             else replicate 4 0)
      in case writeUInt32LE (uint prefixLen) of
           Inl e \<Rightarrow> Inl e
         | Inr prefixBuffer \<Rightarrow> Inr (ipBuffer @ prefixBuffer))"

text \<open>The loop of \<open>writeGeoIpEntry\<close> over the CIDR list, with the buffer it extends.\<close>

fun writeCidrs :: "cidr list \<Rightarrow> buffer \<Rightarrow> error + buffer" where
  "writeCidrs [] buffer = Inr buffer"
| "writeCidrs (cidr # cidrs) buffer =
     (case writeCidr (fst cidr) (snd cidr) of
        Inl e \<Rightarrow> Inl e
      | Inr cidrBuffer \<Rightarrow>
          (case writeUInt32LE (int (length cidrBuffer)) of
             Inl e \<Rightarrow> Inl e
           | Inr cidrLengthBuffer \<Rightarrow>
               (let tag2 = [push_bit 3 2 OR 2] in
                writeCidrs cidrs (buffer @ tag2 @ cidrLengthBuffer @ cidrBuffer))))"

definition writeGeoIpEntry :: "jsstring \<Rightarrow> cidr list \<Rightarrow> error + buffer" where
  "writeGeoIpEntry countryCode cidrs =
     (case writeString countryCode of
        Inl e \<Rightarrow> Inl e
      | Inr countryBuffer \<Rightarrow>
          (let tag1 = [push_bit 3 1 OR 2];
               buffer = [] @ tag1 @ countryBuffer
           in case writeCidrs cidrs buffer of
                Inl e \<Rightarrow> Inl e
              | Inr buffer' \<Rightarrow>
                  (let tag3 = [push_bit 3 3 OR 0];
                       reverseMatchBuffer = [0]
                   in Inr (buffer' @ tag3 @ reverseMatchBuffer))))"

section \<open>Driver\<close>

text \<open>
  \<open>entries\<close> is a JavaScript \<open>Map\<close>: keys are unique and iteration follows insertion
  order, so it is an association list.
\<close>

type_synonym entries = "(jsstring \<times> cidr list) list"

definition Map_has :: "entries \<Rightarrow> jsstring \<Rightarrow> bool" where
  "Map_has m k \<longleftrightarrow> k \<in> set (map fst m)"

definition Map_set :: "entries \<Rightarrow> jsstring \<Rightarrow> cidr list \<Rightarrow> entries" where
  "Map_set m k v =
     (if Map_has m k then map (\<lambda>(k', v'). if k' = k then (k', v) else (k', v')) m
      else m @ [(k, v)])"

text \<open>\<open>m.get(k).push(...xs)\<close>: the array stored under \<open>k\<close> grows in place.\<close>

definition Map_push :: "entries \<Rightarrow> jsstring \<Rightarrow> cidr list \<Rightarrow> entries" where
  "Map_push m k xs = map (\<lambda>(k', v'). if k' = k then (k', v' @ xs) else (k', v')) m"

definition exampleCidrs :: "cidr list" where
  "exampleCidrs = [(str ''192.168.1.0'', 24)]"

text \<open>Body of the inner loop (source lines 263 to 271).\<close>

definition addCountryCode :: "entries \<Rightarrow> jsstring \<Rightarrow> entries" where
  "addCountryCode entries countryCode =
     (let entries' = (if \<not> Map_has entries countryCode then Map_set entries countryCode []
                      else entries)
      in Map_push entries' countryCode exampleCidrs)"

text \<open>Body of the loop over the lines (source lines 221 to 272).\<close>

definition parseLine :: "bool \<Rightarrow> jsstring \<Rightarrow> georecord option" where
  "parseLine ipdb line = (if ipdb then parseIpdbEntry (trim line) else parseTextLine line)"

definition processLine :: "runtime \<Rightarrow> bool \<Rightarrow> entries \<Rightarrow> jsstring \<Rightarrow> entries" where
  "processLine rt ipdb entries line =
     (case parseLine ipdb line of
        None \<Rightarrow> entries
      | Some r \<Rightarrow>
          if country_name r \<noteq> zhongguo then entries
          else (let countryCodes =
                      createCountryCodes rt (country_name r) (region_name r) (city_name r)
                        (str ''4'') (isp_domain r)
                in if length countryCodes = 0 then entries
                   else foldl addCountryCode entries countryCodes))"

text \<open>\<open>path.extname\<close> (POSIX flavour).\<close>

definition extname :: "jsstring \<Rightarrow> jsstring" where
  "extname p =
     (let q = rev (dropWhile (\<lambda>c. c = 0x2F) (rev p));
          base = rev (takeWhile (\<lambda>c. c \<noteq> 0x2F) (rev q));
          ext = rev (takeWhile (\<lambda>c. c \<noteq> 0x2E) (rev base))
      in if 0x2E \<notin> set base \<or> Suc (length ext) = length base \<or> base = str ''..'' then []
         else 0x2E # ext)"

definition readLines :: "runtime \<Rightarrow> buffer \<Rightarrow> jsstring list" where
  "readLines rt content =
     (let data = decodeUtf8 rt content in filter (\<lambda>line. trim line \<noteq> []) (js_split 0xA data))"

definition buildEntries :: "runtime \<Rightarrow> jsstring \<Rightarrow> buffer \<Rightarrow> entries" where
  "buildEntries rt inputFile content =
     foldl (processLine rt (extname inputFile = str ''.ipdb'')) [] (readLines rt content)"

text \<open>The loop that serialises the table (source lines 283 to 286).\<close>

fun writeEntries :: "entries \<Rightarrow> buffer \<Rightarrow> error + buffer" where
  "writeEntries [] fileBuffer = Inr fileBuffer"
| "writeEntries ((countryCode, cidrs) # rest) fileBuffer =
     (case writeGeoIpEntry countryCode cidrs of
        Inl e \<Rightarrow> Inl e
      | Inr entryBuffer \<Rightarrow> writeEntries rest (fileBuffer @ entryBuffer))"

text \<open>Decimal text of a number, as a template literal prints it.\<close>

fun decimal :: "nat \<Rightarrow> jsstring" where
  "decimal n = (if n < 10 then [of_nat (48 + n)] else decimal (n div 10) @ [of_nat (48 + n mod 10)])"

declare decimal.simps [simp del]

text \<open>
  The world the driver acts on: the files (a path either names a file with its bytes,
  or does not exist; reading an existing file and writing any path always succeed) and
  the lines printed on the two console streams.
\<close>

datatype stream = Stdout | Stderr

record world =
  files :: "jsstring \<rightharpoonup> buffer"
  console :: "(stream \<times> jsstring) list"

definition generateGeoipDat :: "runtime \<Rightarrow> jsstring \<Rightarrow> jsstring \<Rightarrow> world \<Rightarrow> error + world" where
  "generateGeoipDat rt inputFile outputFile w =
     (case files w inputFile of
        None \<Rightarrow>
          Inr (w\<lparr>console := console w @
                   [(Stderr, str ''Error: Input file '' @ inputFile @ str '' does not exist.'')]\<rparr>)
      | Some content \<Rightarrow>
          (let entries = buildEntries rt inputFile content in
           case writeUInt32LE (int (length entries)) of
             Inl e \<Rightarrow> Inl e
           | Inr countBuffer \<Rightarrow>
               (case writeEntries entries ([] @ countBuffer) of
                  Inl e \<Rightarrow> Inl e
                | Inr fileBuffer \<Rightarrow>
                    Inr (w\<lparr>files := (files w)(outputFile \<mapsto> fileBuffer),
                           console := console w @
                             [(Stdout, str ''Generated '' @ outputFile @ str '' with ''
                                 @ decimal (length entries) @ str '' entries'')]\<rparr>))))"

section \<open>Notions of the specification\<close>

text \<open>Four bytes, least significant first.\<close>

definition le32 :: "nat \<Rightarrow> buffer" where
  "le32 n = [of_nat n, of_nat (n div 0x100), of_nat (n div 0x10000), of_nat (n div 0x1000000)]"

text \<open>
  The four address bytes of a dotted string: one per part when there are exactly four
  parts, zeros otherwise.
\<close>

definition addressBytes :: "jsstring \<Rightarrow> buffer" where
  "addressBytes ip =
     (let parts = js_split 0x2E ip in
      if length parts = 4 then map (\<lambda>part. toUint8 (parseInt part)) parts else [0, 0, 0, 0])"

text \<open>
  The 8-byte CIDR message, and the bytes of one entry in the field order of the format:
  tag \<open>0x0A\<close> with the length-prefixed country code, tag \<open>0x12\<close> with the length-prefixed
  message once per CIDR, tag \<open>0x18\<close> with the byte 0.
\<close>

definition cidrMessage :: "cidr \<Rightarrow> buffer" where
  "cidrMessage cidr = addressBytes (fst cidr) @ le32 (unat (snd cidr))"

definition geoIpEntryBytes :: "jsstring \<Rightarrow> cidr list \<Rightarrow> buffer" where
  "geoIpEntryBytes c cidrs =
     [0x0A] @ le32 (length (Buffer_from_utf8 c)) @ Buffer_from_utf8 c
     @ concat (map (\<lambda>cidr. [0x12] @ le32 8 @ cidrMessage cidr) cidrs)
     @ [0x18, 0x00]"

text \<open>
  A well-formed IPv4 address: four parts separated by dots, each of one to three decimal
  digits and of value at most 255.
\<close>

definition isDigit :: "16 word \<Rightarrow> bool" where
  "isDigit c \<longleftrightarrow> 0x30 \<le> c \<and> c \<le> 0x39"

definition octetValue :: "jsstring \<Rightarrow> nat" where
  "octetValue p = foldl (\<lambda>a c. a * 10 + (unat c - 0x30)) 0 p"

definition isDecimalOctet :: "jsstring \<Rightarrow> bool" where
  "isDecimalOctet p \<longleftrightarrow>
     p \<noteq> [] \<and> length p \<le> 3 \<and> list_all isDigit p \<and> octetValue p \<le> 255"

definition wellFormedIPv4 :: "jsstring \<Rightarrow> bool" where
  "wellFormedIPv4 ip \<longleftrightarrow>
     (let parts = js_split 0x2E ip in length parts = 4 \<and> list_all isDecimalOctet parts)"

text \<open>The elements of a list in the order of their first occurrence.\<close>

fun firstSeen :: "'a list \<Rightarrow> 'a list" where
  "firstSeen [] = []"
| "firstSeen (x # xs) = x # removeAll x (firstSeen xs)"

text \<open>
  The country codes one input line generates, the lines that generate any, and the codes
  of all the lines of an input file, in the order of the scan.
\<close>

definition lineCountryCodes :: "runtime \<Rightarrow> bool \<Rightarrow> jsstring \<Rightarrow> jsstring list" where
  "lineCountryCodes rt ipdb line =
     (case parseLine ipdb line of
        None \<Rightarrow> []
      | Some r \<Rightarrow>
          if country_name r = zhongguo
          then createCountryCodes rt (country_name r) (region_name r) (city_name r) (str ''4'')
                 (isp_domain r)
          else [])"

definition isChinaLine :: "bool \<Rightarrow> jsstring \<Rightarrow> bool" where
  "isChinaLine ipdb line =
     (case parseLine ipdb line of None \<Rightarrow> False | Some r \<Rightarrow> country_name r = zhongguo)"

definition allCountryCodes :: "runtime \<Rightarrow> jsstring \<Rightarrow> buffer \<Rightarrow> jsstring list" where
  "allCountryCodes rt inputFile content =
     concat (map (lineCountryCodes rt (extname inputFile = str ''.ipdb'')) (readLines rt content))"

subsection \<open>Names and lines used in the examples\<close>

text \<open>
  Two carriers (Telecom, Unicom), two regions (Beijing, Guangdong), one city (Shenzhen),
  one other country (the United States), and a line of four fields in each of the two
  delimiters.
\<close>

definition dianxin :: jsstring where
  "dianxin = [0x7535, 0x4FE1]"

definition liantong :: jsstring where
  "liantong = [0x8054, 0x901A]"

definition beijing :: jsstring where
  "beijing = [0x5317, 0x4EAC]"

definition guangdong :: jsstring where
  "guangdong = [0x5E7F, 0x4E1C]"

definition shenzhen :: jsstring where
  "shenzhen = [0x6DF1, 0x5733]"

definition meiguo :: jsstring where
  "meiguo = [0x7F8E, 0x56FD]"

definition pipeLine :: "jsstring \<Rightarrow> jsstring \<Rightarrow> jsstring \<Rightarrow> jsstring \<Rightarrow> jsstring" where
  "pipeLine a b c d = a @ [0x7C] @ b @ [0x7C] @ c @ [0x7C] @ d"

definition tabLine :: "jsstring \<Rightarrow> jsstring \<Rightarrow> jsstring \<Rightarrow> jsstring \<Rightarrow> jsstring" where
  "tabLine a b c d = a @ [0x9] @ b @ [0x9] @ c @ [0x9] @ d"

subsection \<open>A sample runtime for the examples\<close>

text \<open>
  Upper-casing of ASCII letters (exact on strings of ASCII and of caseless characters
  such as Chinese ones), a \<open>pinyin\<close> that knows one city, a decoder of one- to
  three-byte UTF-8 sequences, and the text V8 prints for the members of
  \<open>Object.prototype\<close>.
\<close>

definition asciiUpper :: "jsstring \<Rightarrow> jsstring" where
  "asciiUpper s = map (\<lambda>c. if 0x61 \<le> c \<and> c \<le> 0x7A then c - 0x20 else c) s"

definition samplePinyin :: "jsstring \<Rightarrow> jsstring list list" where
  "samplePinyin s = (if s = shenzhen then [[str ''shen''], [str ''zhen'']] else [[s]])"

definition isContinuation :: "8 word \<Rightarrow> bool" where
  "isContinuation b \<longleftrightarrow> 0x80 \<le> b \<and> b \<le> 0xBF"

definition singleUnit :: "8 word \<Rightarrow> 16 word" where
  "singleUnit a = (if a < 0x80 then ucast a else 0xFFFD)"

definition twoByteUnit :: "8 word \<Rightarrow> 8 word \<Rightarrow> 16 word" where
  "twoByteUnit a b = of_nat ((unat a - 0xC0) * 0x40 + (unat b - 0x80))"

definition threeByteUnit :: "8 word \<Rightarrow> 8 word \<Rightarrow> 8 word \<Rightarrow> 16 word" where
  "threeByteUnit a b c =
     of_nat ((unat a - 0xE0) * 0x1000 + (unat b - 0x80) * 0x40 + (unat c - 0x80))"

fun sampleDecode :: "buffer \<Rightarrow> jsstring" where
  "sampleDecode [] = []"
| "sampleDecode [a] = [singleUnit a]"
| "sampleDecode [a, b] =
     (if 0xC2 \<le> a \<and> a \<le> 0xDF \<and> isContinuation b then [twoByteUnit a b]
      else singleUnit a # sampleDecode [b])"
| "sampleDecode (a # b # c # bs) =
     (if 0xE0 \<le> a \<and> a \<le> 0xEF \<and> isContinuation b \<and> isContinuation c
      then threeByteUnit a b c # sampleDecode bs
      else if 0xC2 \<le> a \<and> a \<le> 0xDF \<and> isContinuation b
      then twoByteUnit a b # sampleDecode (c # bs)
      else singleUnit a # sampleDecode (b # c # bs))"

definition sampleMemberToString :: "jsstring \<Rightarrow> jsstring" where
  "sampleMemberToString k =
     (if k = str ''__proto__'' then str ''[object Object]''
      else if k = str ''constructor'' then str ''function Object() { [native code] }''
      else str ''function '' @ k @ str ''() { [native code] }'')"

definition sampleRuntime :: runtime where
  "sampleRuntime =
     \<lparr>toUpperCase = asciiUpper, pinyin = samplePinyin, decodeUtf8 = sampleDecode,
      memberToString = sampleMemberToString\<rparr>"

subsection \<open>Two sample runs\<close>

text \<open>
  A world whose one input file holds one China line, and a world whose input file holds
  a line of another country, a blank line and a line with too few fields.
\<close>

definition sampleLine :: jsstring where
  "sampleLine = pipeLine zhongguo beijing beijing dianxin"

definition sampleWorld :: world where
  "sampleWorld =
     \<lparr>files = [str ''in.txt'' \<mapsto> Buffer_from_utf8 (sampleLine @ [0xA])], console = []\<rparr>"

definition foreignText :: jsstring where
  "foreignText = str ''US|CA|LA|ATT'' @ [0xA, 0xA] @ str ''foo''"

definition foreignWorld :: world where
  "foreignWorld = \<lparr>files = [str ''in.txt'' \<mapsto> Buffer_from_utf8 foreignText], console = []\<rparr>"

section \<open>Code Normalizer: the table and the two lookups\<close>

lemma pinyinMap_entries_shape: "\<forall>(k, v) \<in> set pinyinMap. v \<noteq> [] \<and> length k \<le> 3"
  by (simp add: pinyinMap_def carrierEntries_def regionEntries_def str_def)

lemma pinyinMap_values_nonempty: "map_of pinyinMap k = Some v \<Longrightarrow> v \<noteq> []"
  using pinyinMap_entries_shape by (auto dest!: map_of_SomeD)

lemma objectPrototypeKeys_long: "\<forall>k \<in> set objectPrototypeKeys. 6 < length k"
  by (simp add: objectPrototypeKeys_def str_def)

lemma objectPrototypeKeys_not_own: "k \<in> set objectPrototypeKeys \<Longrightarrow> map_of pinyinMap k = None"
proof (rule ccontr)
  assume k: "k \<in> set objectPrototypeKeys" and "map_of pinyinMap k \<noteq> None"
  then obtain v where "(k, v) \<in> set pinyinMap" by (auto dest: map_of_SomeD)
  with pinyinMap_entries_shape have "length k \<le> 3" by auto
  moreover from k objectPrototypeKeys_long have "6 < length k" by auto
  ultimately show False by simp
qed

lemma or_else_get_short:
  "length k \<le> 2 \<Longrightarrow>
   or_else (pinyinMap_get k) (Str d) = (case map_of pinyinMap k of Some v \<Rightarrow> Str v | None \<Rightarrow> Str d)"
  using objectPrototypeKeys_long pinyinMap_values_nonempty[of k]
  by (fastforce simp: or_else_def pinyinMap_get_def split: option.splits)

lemma getIspCode_lookup:
  "getIspCode name =
     (case map_of pinyinMap (take 2 name) of Some v \<Rightarrow> Str v | None \<Rightarrow> Str (str ''UN''))"
proof -
  consider "2 \<le> length name" | "length name = 1" | "name = []"
    by (cases name) (auto simp: Suc_le_eq)
  then show ?thesis
  proof cases
    case 1 then show ?thesis by (simp add: getIspCode_def Let_def or_else_get_short)
  next
    case 2 then show ?thesis by (simp add: getIspCode_def or_else_get_short)
  next
    case 3 then show ?thesis
      by (simp add: getIspCode_def pinyinMap_def carrierEntries_def regionEntries_def)
  qed
qed

lemma map_of_pinyinMap_carrier:
  "k \<notin> fst ` set regionEntries \<Longrightarrow> map_of pinyinMap k = map_of carrierEntries k"
proof -
  assume "k \<notin> fst ` set regionEntries"
  then have "map_of regionEntries k = None" by (simp add: map_of_eq_None_iff)
  then show ?thesis by (simp add: pinyinMap_def map_add_def split: option.splits)
qed

text \<open>
  C4 (as amended). \<open>getIspCode\<close> looks the first two code units of the name (the single
  one, when there is only one) up in the whole table \<open>pinyinMap\<close>, carrier and region
  entries alike: the result is the code mapped to that key, or \<open>UN\<close> on a miss or an
  empty name. When that prefix is not a region name the result is a carrier code (\<open>UN\<close>
  is the carrier code of the "unknown" entry). The carrier name \<open>dianxin\<close> gives \<open>DX\<close>
  and the empty name gives \<open>UN\<close>.
\<close>

theorem getIspCode_result:
  "getIspCode name =
     (case map_of pinyinMap (take 2 name) of Some v \<Rightarrow> Str v | None \<Rightarrow> Str (str ''UN''))
   \<and> getIspCode name \<in> Str ` (snd ` set pinyinMap \<union> {str ''UN''})
   \<and> (take 2 name \<notin> fst ` set regionEntries \<longrightarrow> getIspCode name \<in> Str ` snd ` set carrierEntries)
   \<and> getIspCode dianxin = Str (str ''DX'')
   \<and> getIspCode [] = Str (str ''UN'')"
proof (intro conjI impI)
  show a: "getIspCode name =
     (case map_of pinyinMap (take 2 name) of Some v \<Rightarrow> Str v | None \<Rightarrow> Str (str ''UN''))"
    by (rule getIspCode_lookup)
  show "getIspCode name \<in> Str ` (snd ` set pinyinMap \<union> {str ''UN''})"
  proof (cases "map_of pinyinMap (take 2 name)")
    case None then show ?thesis by (simp add: a)
  next
    case (Some v)
    then have "(take 2 name, v) \<in> set pinyinMap" by (rule map_of_SomeD)
    then have "v \<in> snd ` set pinyinMap" by force
    with Some show ?thesis by (simp add: a)
  qed
  show "getIspCode name \<in> Str ` snd ` set carrierEntries"
    if r: "take 2 name \<notin> fst ` set regionEntries"
  proof (cases "map_of carrierEntries (take 2 name)")
    case None
    have "(weizhi, str ''UN'') \<in> set carrierEntries"
      by (simp add: carrierEntries_def weizhi_def)
    then have "str ''UN'' \<in> snd ` set carrierEntries" by force
    with None show ?thesis by (simp add: a map_of_pinyinMap_carrier[OF r])
  next
    case (Some v)
    then have "(take 2 name, v) \<in> set carrierEntries" by (rule map_of_SomeD)
    then have "v \<in> snd ` set carrierEntries" by force
    with Some show ?thesis by (simp add: a map_of_pinyinMap_carrier[OF r])
  qed
  show "getIspCode dianxin = Str (str ''DX'')"
    by (simp add: getIspCode_lookup dianxin_def pinyinMap_def carrierEntries_def)
  show "getIspCode [] = Str (str ''UN'')"
    by (simp add: getIspCode_def)
qed

theorem getIspCode_result_witness:
  "take 2 (liantong @ [0x5BBD, 0x5E26]) \<notin> fst ` set regionEntries
   \<and> getIspCode (liantong @ [0x5BBD, 0x5E26]) = Str (str ''LT'')
   \<and> getIspCode (liantong @ [0x5BBD, 0x5E26]) \<in> Str ` snd ` set carrierEntries"
proof -
  have h: "take 2 (liantong @ [0x5BBD, 0x5E26]) \<notin> fst ` set regionEntries"
    by (simp add: liantong_def regionEntries_def)
  have "getIspCode (liantong @ [0x5BBD, 0x5E26]) = Str (str ''LT'')"
    using getIspCode_result[of "liantong @ [0x5BBD, 0x5E26]"]
    by (simp add: liantong_def pinyinMap_def carrierEntries_def)
  with h getIspCode_result[of "liantong @ [0x5BBD, 0x5E26]"] show ?thesis by blast
qed

text \<open>
  The claim as written fails on a name that begins with a region name: the lookup is
  not restricted to the carrier entries.
\<close>

theorem getIspCode_region_counterexample:
  "getIspCode beijing = Str (str ''BJ'') \<and> str ''BJ'' \<notin> snd ` set carrierEntries"
  by (simp add: getIspCode_lookup beijing_def pinyinMap_def carrierEntries_def regionEntries_def
      str_def)

lemma regionEntries_lookup: "\<forall>(k, v) \<in> set regionEntries. map_of pinyinMap k = Some v \<and> length v = 2"
  by (simp add: pinyinMap_def carrierEntries_def regionEntries_def str_def)

lemma getStandardRegionCode_own:
  "map_of pinyinMap k = Some v \<Longrightarrow> getStandardRegionCode rt k = Str v"
  using pinyinMap_values_nonempty[of k v]
  by (simp add: getStandardRegionCode_def pinyinMap_get_def or_else_def)

lemma getStandardRegionCode_inherited:
  "k \<in> set objectPrototypeKeys \<Longrightarrow> getStandardRegionCode rt k = ObjectPrototypeMember k"
  by (simp add: getStandardRegionCode_def pinyinMap_get_def or_else_def objectPrototypeKeys_not_own)

text \<open>
  C5 (as amended). For every region name of the table, \<open>getStandardRegionCode\<close> returns
  exactly the mapped two-letter code. For every name that is no key of \<open>pinyinMap\<close> at
  all (neither a region entry nor a carrier entry) and is not the name of a member
  inherited from \<open>Object.prototype\<close>, it returns the upper-cased first three code units
  of the name.
\<close>

theorem getStandardRegionCode_result:
  "(\<forall>(k, v) \<in> set regionEntries. getStandardRegionCode rt k = Str v \<and> length v = 2)
   \<and> (name \<notin> fst ` set pinyinMap \<and> name \<notin> set objectPrototypeKeys \<longrightarrow>
        getStandardRegionCode rt name = Str (toUpperCase rt (take 3 name)))"
proof (intro conjI impI)
  show "\<forall>(k, v) \<in> set regionEntries. getStandardRegionCode rt k = Str v \<and> length v = 2"
    using regionEntries_lookup by (auto simp: getStandardRegionCode_own)
  assume "name \<notin> fst ` set pinyinMap \<and> name \<notin> set objectPrototypeKeys"
  then have "map_of pinyinMap name = None" "name \<notin> set objectPrototypeKeys"
    by (simp_all add: map_of_eq_None_iff)
  then show "getStandardRegionCode rt name = Str (toUpperCase rt (take 3 name))"
    by (simp add: getStandardRegionCode_def pinyinMap_get_def or_else_def)
qed

theorem getStandardRegionCode_result_witness:
  "(guangdong, str ''GD'') \<in> set regionEntries
   \<and> getStandardRegionCode sampleRuntime guangdong = Str (str ''GD'')
   \<and> str ''hainan dao'' \<notin> fst ` set pinyinMap \<and> str ''hainan dao'' \<notin> set objectPrototypeKeys
   \<and> getStandardRegionCode sampleRuntime (str ''hainan dao'') = Str (str ''HAI'')"
proof -
  have a: "(guangdong, str ''GD'') \<in> set regionEntries"
    by (simp add: regionEntries_def guangdong_def)
  have b: "str ''hainan dao'' \<notin> fst ` set pinyinMap \<and> str ''hainan dao'' \<notin> set objectPrototypeKeys"
    by (simp add: pinyinMap_def carrierEntries_def regionEntries_def objectPrototypeKeys_def str_def)
  have c: "toUpperCase sampleRuntime (take 3 (str ''hainan dao'')) = str ''HAI''"
    by (simp add: sampleRuntime_def asciiUpper_def str_def)
  from a b c getStandardRegionCode_result[of sampleRuntime "str ''hainan dao''"]
  show ?thesis by auto
qed

text \<open>
  The claim as written fails on a carrier name, which is a key of the same table (the
  result is the carrier's code, not the upper-cased name), and on the name of an
  inherited member, which is no key of the table at all (the result is that member).
\<close>

theorem getStandardRegionCode_carrier_counterexample:
  "dianxin \<noteq> [] \<and> dianxin \<notin> fst ` set regionEntries
   \<and> getStandardRegionCode sampleRuntime dianxin = Str (str ''DX'')
   \<and> toUpperCase sampleRuntime (take 3 dianxin) = dianxin
   \<and> dianxin \<noteq> str ''DX''
   \<and> str ''constructor'' \<notin> fst ` set pinyinMap
   \<and> getStandardRegionCode sampleRuntime (str ''constructor'')
       = ObjectPrototypeMember (str ''constructor'')"
proof -
  have "str ''constructor'' \<in> set objectPrototypeKeys"
    by (simp add: objectPrototypeKeys_def)
  then have p: "str ''constructor'' \<notin> fst ` set pinyinMap
      \<and> getStandardRegionCode sampleRuntime (str ''constructor'')
          = ObjectPrototypeMember (str ''constructor'')"
    using objectPrototypeKeys_not_own[of "str ''constructor''"]
    by (simp add: getStandardRegionCode_inherited map_of_eq_None_iff)
  have "map_of pinyinMap dianxin = Some (str ''DX'')"
    by (simp add: pinyinMap_def carrierEntries_def dianxin_def)
  then have "getStandardRegionCode sampleRuntime dianxin = Str (str ''DX'')"
    by (rule getStandardRegionCode_own)
  moreover have "dianxin \<noteq> [] \<and> dianxin \<notin> fst ` set regionEntries \<and> dianxin \<noteq> str ''DX''"
    by (simp add: dianxin_def regionEntries_def str_def)
  moreover have "toUpperCase sampleRuntime (take 3 dianxin) = dianxin"
    by (simp add: sampleRuntime_def asciiUpper_def dianxin_def)
  ultimately show ?thesis using p by simp
qed

section \<open>Binary Encoder: the byte layout\<close>

lemma word_of_int_div_numeral:
  "(word_of_int (int n div numeral k) :: 'a::len word) = word_of_nat (n div numeral k)"
proof -
  have "int n div numeral k = int (n div numeral k)" by (simp add: zdiv_int)
  then show ?thesis by (simp only: of_int_of_nat_eq)
qed

lemma writeUInt32LE_nat: "n < 2 ^ 32 \<Longrightarrow> writeUInt32LE (int n) = Inr (le32 n)"
  by (simp add: writeUInt32LE_def le32_def word_of_int_div_numeral del: of_nat_div)

lemma writeUInt32LE_too_large: "2 ^ 32 \<le> n \<Longrightarrow> writeUInt32LE (int n) = Inl ERR_OUT_OF_RANGE"
  by (simp add: writeUInt32LE_def)

lemma writeUInt32LE_negative: "v < 0 \<Longrightarrow> writeUInt32LE v = Inl ERR_OUT_OF_RANGE"
  by (simp add: writeUInt32LE_def)

lemma le32_value:
  assumes "n < 2 ^ 32"
  shows "unat (le32 n ! 0) + 0x100 * unat (le32 n ! 1) + 0x10000 * unat (le32 n ! 2)
     + 0x1000000 * unat (le32 n ! 3) = n"
proof -
  have a: "n = n mod 256 + 256 * (n div 256)" by simp
  have b: "n div 256 = n div 256 mod 256 + 256 * (n div 65536)"
    using mod_mult_div_eq[of "n div 256" 256] by (simp add: div_mult2_eq[symmetric])
  have c: "n div 65536 = n div 65536 mod 256 + 256 * (n div 16777216)"
    using mod_mult_div_eq[of "n div 65536" 256] by (simp add: div_mult2_eq[symmetric])
  have d: "n div 16777216 mod 256 = n div 16777216"
    using assms by (simp add: less_mult_imp_div_less)
  have "unat (le32 n ! 0) + 0x100 * unat (le32 n ! 1) + 0x10000 * unat (le32 n ! 2)
     + 0x1000000 * unat (le32 n ! 3)
     = n mod 256 + 256 * (n div 256 mod 256) + 65536 * (n div 65536 mod 256) + 16777216 * (n div 16777216 mod 256)"
    by (simp add: le32_def unat_of_nat)
  also have "\<dots> = n" using a b c d by linarith
  finally show ?thesis .
qed

lemma length_le32: "length (le32 n) = 4"
  by (simp add: le32_def)

lemma list4: "length xs = 4 \<Longrightarrow> xs = [xs ! 0, xs ! 1, xs ! 2, xs ! 3]"
  by (auto simp: list_eq_iff_nth_eq less_Suc_eq numeral_eq_Suc)

lemma writeUInt32LE_word: "writeUInt32LE (uint (p :: 32 word)) = Inr (le32 (unat p))"
  using writeUInt32LE_nat[of "unat p"] unsigned_less[of p, where ?'a = nat] by simp

lemma writeCidr_eq: "writeCidr ip p = Inr (addressBytes ip @ le32 (unat p))"
proof (cases "length (js_split 0x2E ip) = 4")
  case True
  from list4[OF True] obtain a b c d where p: "js_split 0x2E ip = [a, b, c, d]" by blast
  show ?thesis by (simp add: writeCidr_def addressBytes_def writeUInt32LE_word p numeral_eq_Suc)
next
  case False
  then show ?thesis by (simp add: writeCidr_def addressBytes_def writeUInt32LE_word numeral_eq_Suc)
qed

lemma length_addressBytes: "length (addressBytes ip) = 4"
  by (simp add: addressBytes_def Let_def)

lemma parseInt_small:
  "parseInt (str ''1'') = Some 1" "parseInt (str ''2'') = Some 2" "parseInt (str ''3'') = Some 3"
  "parseInt (str ''x'') = None" "parseInt (str ''192'') = Some 192" "parseInt (str ''168'') = Some 168"
  "parseInt (str ''0'') = Some 0"
  by (simp_all add: parseInt_def str_def isWhiteSpace_def digitValue_def Let_def)

lemma toUint8_small: "nat \<bar>v\<bar> < 2 ^ 53 \<Longrightarrow> toUint8 (Some v) = word_of_int v"
  by (simp add: toUint8_def toDouble_def Let_def)

lemma toUint8_NaN: "toUint8 None = 0"
  by (simp add: toUint8_def)

lemma digit_not_space: "isDigit c \<Longrightarrow> \<not> isWhiteSpace c"
  by (auto simp: isDigit_def isWhiteSpace_def word_le_nat_alt)

lemma digit_value: "isDigit c \<Longrightarrow> digitValue c = unat c - 0x30"
  by (auto simp: isDigit_def digitValue_def)

lemma digit_value_less: "isDigit c \<Longrightarrow> digitValue c < 10"
  by (auto simp: isDigit_def digitValue_def word_le_nat_alt)

lemma digit_not_sign: "isDigit c \<Longrightarrow> c \<noteq> 0x2D \<and> c \<noteq> 0x2B \<and> c \<noteq> 0x78 \<and> c \<noteq> 0x58"
  by (auto simp: isDigit_def)

lemma digits_not_hex: "list_all isDigit p \<Longrightarrow> take 2 p \<noteq> str ''0x'' \<and> take 2 p \<noteq> str ''0X''"
proof (cases p)
  case Nil then show ?thesis by (simp add: str_def)
next
  case (Cons a q)
  assume d: "list_all isDigit p"
  show ?thesis
  proof (cases q)
    case Nil with Cons show ?thesis by (simp add: str_def)
  next
    case (Cons b r)
    with d \<open>p = a # q\<close> have "isDigit b" by simp
    then have "b \<noteq> 0x78 \<and> b \<noteq> 0x58" using digit_not_sign by blast
    with Cons \<open>p = a # q\<close> show ?thesis by (simp add: str_def)
  qed
qed

lemma foldl_digits:
  "list_all isDigit p \<Longrightarrow>
   foldl (\<lambda>a c. a * 10 + digitValue c) n p = foldl (\<lambda>a c. a * 10 + (unat c - 0x30)) n p"
  by (induction p arbitrary: n) (simp_all add: digit_value)

lemma parseInt_digits:
  assumes "p \<noteq> []" and d: "list_all isDigit p"
  shows "parseInt p = Some (int (octetValue p))"
proof -
  from assms obtain a q where p: "p = a # q" and a: "isDigit a" by (cases p) auto
  have 1: "dropWhile isWhiteSpace p = p" using a digit_not_space by (simp add: p)
  have 2: "hd p \<noteq> 0x2D \<and> hd p \<noteq> 0x2B" using a digit_not_sign by (simp add: p)
  have 3: "takeWhile (\<lambda>c. digitValue c < 10) p = p"
    using d by (auto simp: takeWhile_eq_all_conv list_all_iff digit_value_less)
  show ?thesis
    using 2 digits_not_hex[OF d] assms(1)
    by (simp add: parseInt_def 1 3 Let_def foldl_digits[OF d] octetValue_def)
qed

lemma toUint8_octet:
  "isDecimalOctet p \<Longrightarrow> toUint8 (parseInt p) = of_nat (octetValue p) \<and> octetValue p \<le> 255"
proof -
  assume o: "isDecimalOctet p"
  then have "p \<noteq> []" "list_all isDigit p" "octetValue p \<le> 255"
    by (simp_all add: isDecimalOctet_def)
  then show ?thesis
    by (simp add: parseInt_digits toUint8_small)
qed

lemma addressBytes_wellFormed:
  "wellFormedIPv4 ip \<Longrightarrow> addressBytes ip = map (\<lambda>p. of_nat (octetValue p)) (js_split 0x2E ip)"
  by (auto simp: wellFormedIPv4_def addressBytes_def Let_def list_all_iff toUint8_octet)

text \<open>
  C3 (as amended). For every address string and every unsigned 32-bit prefix length,
  \<open>writeCidr\<close> returns (it never raises) exactly 8 bytes: 4 address bytes followed by
  the prefix length as 4 little-endian bytes. When the address splits at the dots into
  exactly four parts, each address byte is \<open>parseInt\<close> of its part stored as a byte
  (NaN stores 0, other values are reduced modulo 256); when it does not, the four address
  bytes are all zero. For a well-formed address the four bytes are its four octets.
\<close>

theorem writeCidr_layout:
  "writeCidr ip p = Inr (addressBytes ip @ le32 (unat p))
   \<and> length (addressBytes ip) = 4 \<and> length (le32 (unat p)) = 4
   \<and> unat (le32 (unat p) ! 0) + 0x100 * unat (le32 (unat p) ! 1)
       + 0x10000 * unat (le32 (unat p) ! 2) + 0x1000000 * unat (le32 (unat p) ! 3) = unat p
   \<and> (length (js_split 0x2E ip) = 4 \<longrightarrow>
        addressBytes ip = map (\<lambda>part. toUint8 (parseInt part)) (js_split 0x2E ip))
   \<and> (length (js_split 0x2E ip) \<noteq> 4 \<longrightarrow> addressBytes ip = [0, 0, 0, 0])
   \<and> (wellFormedIPv4 ip \<longrightarrow>
        addressBytes ip = map (\<lambda>part. of_nat (octetValue part)) (js_split 0x2E ip))"
proof -
  have "unat p < 2 ^ 32" using unsigned_less[of p, where ?'a = nat] by simp
  then have "unat (le32 (unat p) ! 0) + 0x100 * unat (le32 (unat p) ! 1)
       + 0x10000 * unat (le32 (unat p) ! 2) + 0x1000000 * unat (le32 (unat p) ! 3) = unat p"
    by (rule le32_value)
  moreover have "length (js_split 0x2E ip) = 4 \<longrightarrow>
        addressBytes ip = map (\<lambda>part. toUint8 (parseInt part)) (js_split 0x2E ip)"
    by (simp add: addressBytes_def)
  moreover have "length (js_split 0x2E ip) \<noteq> 4 \<longrightarrow> addressBytes ip = [0, 0, 0, 0]"
    by (simp add: addressBytes_def)
  moreover have "wellFormedIPv4 ip \<longrightarrow>
        addressBytes ip = map (\<lambda>part. of_nat (octetValue part)) (js_split 0x2E ip)"
    by (simp add: addressBytes_wellFormed)
  ultimately show ?thesis
    by (simp only: writeCidr_eq length_addressBytes length_le32 simp_thms)
qed

theorem writeCidr_layout_witness:
  "length (js_split 0x2E (str ''192.168.1.0'')) = 4
   \<and> wellFormedIPv4 (str ''192.168.1.0'')
   \<and> writeCidr (str ''192.168.1.0'') 24 = Inr [192, 168, 1, 0, 24, 0, 0, 0]
   \<and> length (js_split 0x2E (str ''1.2.3'')) \<noteq> 4
   \<and> writeCidr (str ''1.2.3'') 24 = Inr [0, 0, 0, 0, 24, 0, 0, 0]"
proof -
  have a: "js_split 0x2E (str ''192.168.1.0'') = [str ''192'', str ''168'', str ''1'', str ''0'']"
    by (simp add: str_def)
  have b: "js_split 0x2E (str ''1.2.3'') = [str ''1'', str ''2'', str ''3'']"
    by (simp add: str_def)
  have c: "le32 (unat (24 :: 32 word)) = [24, 0, 0, 0]"
    by (simp add: le32_def)
  have d: "map (\<lambda>part. toUint8 (parseInt part)) [str ''192'', str ''168'', str ''1'', str ''0'']
            = [192, 168, 1, 0]"
    by (simp add: parseInt_small toUint8_small)
  from writeCidr_layout[of "str ''192.168.1.0''" 24] a d
  have e: "writeCidr (str ''192.168.1.0'') 24 = Inr ([192, 168, 1, 0] @ le32 (unat (24 :: 32 word)))"
    by simp
  from writeCidr_layout[of "str ''1.2.3''" 24] b
  have f: "writeCidr (str ''1.2.3'') 24 = Inr ([0, 0, 0, 0] @ le32 (unat (24 :: 32 word)))"
    by simp
  have "list_all isDecimalOctet [str ''192'', str ''168'', str ''1'', str ''0'']"
    by (simp add: isDecimalOctet_def isDigit_def octetValue_def str_def)
  then have g: "wellFormedIPv4 (str ''192.168.1.0'')"
    by (simp add: wellFormedIPv4_def a)
  show ?thesis unfolding e f c using g by (simp add: a b)
qed

text \<open>
  The claim as written fails on a malformed address that still has four parts: the parts
  that start with digits are kept, so the address bytes are not all zero.
\<close>

theorem writeCidr_malformed_counterexample:
  "\<not> wellFormedIPv4 (str ''1.2.3.x'')
   \<and> writeCidr (str ''1.2.3.x'') 24 = Inr [1, 2, 3, 0, 24, 0, 0, 0]"
proof -
  have a: "js_split 0x2E (str ''1.2.3.x'') = [str ''1'', str ''2'', str ''3'', str ''x'']"
    by (simp add: str_def)
  have "\<not> isDecimalOctet (str ''x'')"
    by (simp add: isDecimalOctet_def isDigit_def str_def)
  then have b: "\<not> wellFormedIPv4 (str ''1.2.3.x'')"
    by (simp add: wellFormedIPv4_def a)
  have c: "le32 (unat (24 :: 32 word)) = [24, 0, 0, 0]"
    by (simp add: le32_def)
  have "addressBytes (str ''1.2.3.x'') = [1, 2, 3, 0]"
    by (simp add: addressBytes_def a parseInt_small toUint8_small toUint8_NaN)
  with b show ?thesis unfolding writeCidr_eq c by simp
qed

lemma tag_bytes:
  "(push_bit 3 1 OR 2 :: 8 word) = 0x0A" "(push_bit 3 2 OR 2 :: 8 word) = 0x12"
  "(push_bit 3 3 OR 0 :: 8 word) = 0x18"
  by simp_all

lemma writeString_eq:
  "length (Buffer_from_utf8 s) < 2 ^ 32 \<Longrightarrow>
   writeString s = Inr (le32 (length (Buffer_from_utf8 s)) @ Buffer_from_utf8 s)"
  by (simp add: writeString_def Let_def writeUInt32LE_nat)

lemma writeString_too_long:
  "2 ^ 32 \<le> length (Buffer_from_utf8 s) \<Longrightarrow> writeString s = Inl ERR_OUT_OF_RANGE"
  by (simp add: writeString_def Let_def writeUInt32LE_too_large)

lemma writeCidrs_eq:
  "writeCidrs cidrs buffer =
     Inr (buffer @ concat (map (\<lambda>cidr. [0x12] @ le32 8 @ cidrMessage cidr) cidrs))"
proof (induction cidrs arbitrary: buffer)
  case Nil
  show ?case by simp
next
  case (Cons cidr cidrs)
  have n: "writeUInt32LE (int (length (cidrMessage cidr))) = Inr (le32 8)"
    using writeUInt32LE_nat[of 8] by (simp add: cidrMessage_def length_addressBytes length_le32)
  have w: "writeCidr (fst cidr) (snd cidr) = Inr (cidrMessage cidr)"
    by (simp add: writeCidr_eq cidrMessage_def)
  show ?case
    by (simp add: w n Cons.IH)
qed

lemma writeGeoIpEntry_eq:
  "length (Buffer_from_utf8 c) < 2 ^ 32 \<Longrightarrow> writeGeoIpEntry c cidrs = Inr (geoIpEntryBytes c cidrs)"
  by (simp add: writeGeoIpEntry_def writeString_eq writeCidrs_eq Let_def geoIpEntryBytes_def)

lemma writeGeoIpEntry_too_long:
  "2 ^ 32 \<le> length (Buffer_from_utf8 c) \<Longrightarrow> writeGeoIpEntry c cidrs = Inl ERR_OUT_OF_RANGE"
  by (simp add: writeGeoIpEntry_def writeString_too_long)

text \<open>
  C1. For every country code (whose UTF-8 form has a length that fits the 4-byte length
  field, as that of every JavaScript string does) and every list of CIDR pairs,
  \<open>writeGeoIpEntry\<close> produces exactly: the tag byte \<open>0x0A\<close>, the 4-byte little-endian
  length of the UTF-8 encoding of the code, those UTF-8 bytes; then for each CIDR, in list
  order, the tag byte \<open>0x12\<close>, the 4-byte little-endian length 8, and the 8-byte CIDR
  message (4 address bytes, then the 4-byte little-endian prefix length); then the tag
  byte \<open>0x18\<close> and the byte \<open>0x00\<close>.
\<close>

theorem writeGeoIpEntry_layout:
  "length (Buffer_from_utf8 c) < 2 ^ 32 \<Longrightarrow>
   writeGeoIpEntry c cidrs =
     Inr ([0x0A] @ le32 (length (Buffer_from_utf8 c)) @ Buffer_from_utf8 c
          @ concat (map (\<lambda>(ip, p). [0x12] @ le32 8 @ (addressBytes ip @ le32 (unat p))) cidrs)
          @ [0x18, 0x00])"
  by (simp add: writeGeoIpEntry_eq geoIpEntryBytes_def cidrMessage_def case_prod_unfold)

lemma utf8_ascii_sample: "Buffer_from_utf8 (str ''4-DX-BJ'') = [0x34, 0x2D, 0x44, 0x58, 0x2D, 0x42, 0x4A]"
  by (simp add: Buffer_from_utf8_def str_def utf8CodePoint_def scalarValue_def isHighSurrogate_def
      isLowSurrogate_def)

theorem writeGeoIpEntry_layout_witness:
  "length (Buffer_from_utf8 (str ''4-DX-BJ'')) < 2 ^ 32
   \<and> writeGeoIpEntry (str ''4-DX-BJ'') [(str ''192.168.1.0'', 24)] =
       Inr [0x0A, 7, 0, 0, 0, 0x34, 0x2D, 0x44, 0x58, 0x2D, 0x42, 0x4A,
            0x12, 8, 0, 0, 0, 192, 168, 1, 0, 24, 0, 0, 0,
            0x18, 0x00]"
proof -
  have h: "length (Buffer_from_utf8 (str ''4-DX-BJ'')) < 2 ^ 32"
    by (simp add: utf8_ascii_sample)
  have "js_split 0x2E (str ''192.168.1.0'') = [str ''192'', str ''168'', str ''1'', str ''0'']"
    by (simp add: str_def)
  then have a: "addressBytes (str ''192.168.1.0'') = [192, 168, 1, 0]"
    by (simp add: addressBytes_def parseInt_small toUint8_small)
  have b: "le32 7 = [7, 0, 0, 0]" "le32 8 = [8, 0, 0, 0]" "le32 24 = [24, 0, 0, 0]"
    by (simp_all add: le32_def)
  have len: "length (Buffer_from_utf8 (str ''4-DX-BJ'')) = 7"
    by (simp add: utf8_ascii_sample)
  have "writeGeoIpEntry (str ''4-DX-BJ'') [(str ''192.168.1.0'', 24)] =
     Inr ([0x0A] @ le32 7 @ Buffer_from_utf8 (str ''4-DX-BJ'')
          @ concat (map (\<lambda>(ip, p). [0x12] @ le32 8 @ (addressBytes ip @ le32 (unat p)))
                     [(str ''192.168.1.0'', 24 :: 32 word)])
          @ [0x18, 0x00])"
    using writeGeoIpEntry_layout[OF h, of "[(str ''192.168.1.0'', 24)]"] unfolding len .
  then show ?thesis
    using h by (simp add: utf8_ascii_sample a b)
qed

section \<open>Record Parser: the pipe-delimited line\<close>


lemma js_split_no_sep: "sep \<notin> set a \<Longrightarrow> js_split sep a = [a]"
  by (induction a) auto

lemma js_split_append: "sep \<notin> set a \<Longrightarrow> js_split sep (a @ sep # b) = a # js_split sep b"
  by (induction a) auto







section \<open>Country codes of a record\<close>

lemma processLine_codes:
  "processLine rt ipdb entries line = foldl addCountryCode entries (lineCountryCodes rt ipdb line)"
  by (auto simp: processLine_def lineCountryCodes_def Let_def split: option.splits)

lemma createCountryCodes_other:
  "country \<noteq> zhongguo \<Longrightarrow> createCountryCodes rt country region city ipv isp = []"
  by (simp add: createCountryCodes_def getStandardCountryCode_def)

lemma createCountryCodes_zhongguo:
  "createCountryCodes rt zhongguo region city ipv isp =
     (ipv @ str ''-'' @ toString rt (getIspCode isp) @ str ''-''
        @ toString rt (getStandardRegionCode rt region))
     # (if city \<noteq> [] \<and> city \<noteq> region
        then [ipv @ str ''-'' @ toString rt (getIspCode isp) @ str ''-''
                @ toString rt (getStandardRegionCode rt region) @ str ''-''
                @ concat (concat (pinyin rt city))]
        else [])"
  by (simp add: createCountryCodes_def getStandardCountryCode_def getCityPinyin_def Let_def)

lemma str_eq_Nil: "str s = [] \<longleftrightarrow> s = []"
  by (simp add: str_def)

lemma lookup_examples:
  "getIspCode liantong = Str (str ''LT'')" "getIspCode dianxin = Str (str ''DX'')"
  "getStandardRegionCode rt guangdong = Str (str ''GD'')"
  "getStandardRegionCode rt beijing = Str (str ''BJ'')"
  by (simp_all add: getIspCode_def getStandardRegionCode_def Let_def or_else_def pinyinMap_get_def
      pinyinMap_def carrierEntries_def regionEntries_def liantong_def dianxin_def guangdong_def
      beijing_def str_eq_Nil)

lemma names_plain:
  "0x7C \<notin> set zhongguo" "0x7C \<notin> set guangdong" "0x7C \<notin> set shenzhen" "0x7C \<notin> set liantong"
  "0x7C \<notin> set beijing" "0x7C \<notin> set dianxin"
  "0x9 \<notin> set zhongguo" "0x9 \<notin> set beijing" "0x9 \<notin> set dianxin"
  "\<not> isWhiteSpace (hd zhongguo)" "\<not> isWhiteSpace (last liantong)" "\<not> isWhiteSpace (last dianxin)"
  by (simp_all add: zhongguo_def guangdong_def shenzhen_def liantong_def beijing_def dianxin_def
      isWhiteSpace_def)

lemma trim_id: "s \<noteq> [] \<Longrightarrow> \<not> isWhiteSpace (hd s) \<Longrightarrow> \<not> isWhiteSpace (last s) \<Longrightarrow> trim s = s"
proof -
  assume a: "s \<noteq> []" "\<not> isWhiteSpace (hd s)" "\<not> isWhiteSpace (last s)"
  then have 1: "dropWhile isWhiteSpace s = s" by (cases s) auto
  from a have "dropWhile isWhiteSpace (rev s) = rev s"
    by (cases "rev s") (auto simp: last_rev[symmetric] hd_rev)
  with 1 show ?thesis by (simp add: trim_def)
qed


lemma js_split_pipeLine:
  "0x7C \<notin> set a \<Longrightarrow> 0x7C \<notin> set b \<Longrightarrow> 0x7C \<notin> set c \<Longrightarrow> 0x7C \<notin> set d \<Longrightarrow>
   js_split 0x7C (pipeLine a b c d) = [a, b, c, d]"
  by (simp add: pipeLine_def js_split_append js_split_no_sep)

lemma js_split_tabLine:
  "0x9 \<notin> set a \<Longrightarrow> 0x9 \<notin> set b \<Longrightarrow> 0x9 \<notin> set c \<Longrightarrow> 0x9 \<notin> set d \<Longrightarrow>
   js_split 0x9 (tabLine a b c d) = [a, b, c, d]"
  by (simp add: tabLine_def js_split_append js_split_no_sep)

lemma trim_pipeLine:
  "a \<noteq> [] \<Longrightarrow> d \<noteq> [] \<Longrightarrow> \<not> isWhiteSpace (hd a) \<Longrightarrow> \<not> isWhiteSpace (last d) \<Longrightarrow>
   trim (pipeLine a b c d) = pipeLine a b c d"
  by (rule trim_id) (simp_all add: pipeLine_def)

lemma trim_tabLine:
  "a \<noteq> [] \<Longrightarrow> d \<noteq> [] \<Longrightarrow> \<not> isWhiteSpace (hd a) \<Longrightarrow> \<not> isWhiteSpace (last d) \<Longrightarrow>
   trim (tabLine a b c d) = tabLine a b c d"
  by (rule trim_id) (simp_all add: tabLine_def)

lemma names_nonempty: "zhongguo \<noteq> []" "liantong \<noteq> []" "dianxin \<noteq> []" "shenzhen \<noteq> []"
  "beijing \<noteq> []" "guangdong \<noteq> []" "shenzhen \<noteq> guangdong"
  by (simp_all add: zhongguo_def liantong_def dianxin_def shenzhen_def beijing_def guangdong_def)

lemma parseLine_pipe_shenzhen:
  "parseLine False (pipeLine zhongguo guangdong shenzhen liantong) =
     Some \<lparr>country_name = zhongguo, region_name = guangdong, city_name = shenzhen,
           isp_domain = liantong\<rparr>"
  by (simp add: parseLine_def parseTextLine_def trim_pipeLine js_split_pipeLine names_plain
      names_nonempty Let_def or_str_def)

lemma parseLine_pipe_beijing:
  "parseLine False (pipeLine zhongguo beijing beijing dianxin) =
     Some \<lparr>country_name = zhongguo, region_name = beijing, city_name = beijing,
           isp_domain = dianxin\<rparr>"
  by (simp add: parseLine_def parseTextLine_def trim_pipeLine js_split_pipeLine names_plain
      names_nonempty Let_def or_str_def)

lemma parseLine_tab_beijing:
  "parseLine True (tabLine zhongguo beijing beijing dianxin) =
     Some \<lparr>country_name = zhongguo, region_name = beijing, city_name = beijing,
           isp_domain = dianxin\<rparr>"
  by (simp add: parseLine_def parseIpdbEntry_def trim_tabLine js_split_tabLine names_plain
      names_nonempty Let_def or_str_def)

lemma str_append: "str (a @ b) = str a @ str b"
  by (simp add: str_def)

text \<open>
  C7. For a record whose country is China, \<open>createCountryCodes\<close> always produces the
  short form \<open>ipVersion-ispCode-regionCode\<close>, and after it the long form exactly when the
  city is not empty and differs from the region; the long form is the short form, a
  hyphen, and the syllables the \<open>pinyin\<close> package returns for the city, flattened and
  joined with nothing in between. Given that the package returns for the city of the
  example syllables that join to \<open>shenzhen\<close>, the pipe-delimited line (China, Guangdong,
  Shenzhen, Unicom) yields exactly \<open>4-LT-GD\<close> and \<open>4-LT-GD-shenzhen\<close>; the line (China,
  Beijing, Beijing, Telecom), whose city equals its region, yields \<open>4-DX-BJ\<close> only,
  pipe-delimited or tab-delimited, whatever the package returns.
\<close>

theorem createCountryCodes_forms:
  "createCountryCodes rt zhongguo region city ipv isp =
     (ipv @ str ''-'' @ toString rt (getIspCode isp) @ str ''-''
        @ toString rt (getStandardRegionCode rt region))
     # (if city \<noteq> [] \<and> city \<noteq> region
        then [ipv @ str ''-'' @ toString rt (getIspCode isp) @ str ''-''
                @ toString rt (getStandardRegionCode rt region) @ str ''-''
                @ concat (concat (pinyin rt city))]
        else [])
   \<and> (concat (concat (pinyin rt shenzhen)) = str ''shenzhen'' \<longrightarrow>
        lineCountryCodes rt False (pipeLine zhongguo guangdong shenzhen liantong)
          = [str ''4-LT-GD'', str ''4-LT-GD-shenzhen''])
   \<and> lineCountryCodes rt False (pipeLine zhongguo beijing beijing dianxin) = [str ''4-DX-BJ'']
   \<and> lineCountryCodes rt True (tabLine zhongguo beijing beijing dianxin) = [str ''4-DX-BJ'']"
proof (intro conjI impI)
  show "createCountryCodes rt zhongguo region city ipv isp =
     (ipv @ str ''-'' @ toString rt (getIspCode isp) @ str ''-''
        @ toString rt (getStandardRegionCode rt region))
     # (if city \<noteq> [] \<and> city \<noteq> region
        then [ipv @ str ''-'' @ toString rt (getIspCode isp) @ str ''-''
                @ toString rt (getStandardRegionCode rt region) @ str ''-''
                @ concat (concat (pinyin rt city))]
        else [])"
    by (rule createCountryCodes_zhongguo)
next
  assume "concat (concat (pinyin rt shenzhen)) = str ''shenzhen''"
  then show "lineCountryCodes rt False (pipeLine zhongguo guangdong shenzhen liantong)
          = [str ''4-LT-GD'', str ''4-LT-GD-shenzhen'']"
    by (simp add: lineCountryCodes_def parseLine_pipe_shenzhen createCountryCodes_zhongguo
        lookup_examples names_nonempty str_append[symmetric])
next
  show "lineCountryCodes rt False (pipeLine zhongguo beijing beijing dianxin) = [str ''4-DX-BJ'']"
    by (simp add: lineCountryCodes_def parseLine_pipe_beijing createCountryCodes_zhongguo
        lookup_examples names_nonempty str_append[symmetric])
next
  show "lineCountryCodes rt True (tabLine zhongguo beijing beijing dianxin) = [str ''4-DX-BJ'']"
    by (simp add: lineCountryCodes_def parseLine_tab_beijing createCountryCodes_zhongguo
        lookup_examples names_nonempty str_append[symmetric])
qed

theorem createCountryCodes_forms_witness:
  "pinyin sampleRuntime shenzhen = [[str ''shen''], [str ''zhen'']]
   \<and> concat (concat (pinyin sampleRuntime shenzhen)) = str ''shenzhen''
   \<and> lineCountryCodes sampleRuntime False (pipeLine zhongguo guangdong shenzhen liantong)
       = [str ''4-LT-GD'', str ''4-LT-GD-shenzhen'']"
proof -
  have p: "pinyin sampleRuntime shenzhen = [[str ''shen''], [str ''zhen'']]"
    by (simp add: sampleRuntime_def samplePinyin_def)
  then have h: "concat (concat (pinyin sampleRuntime shenzhen)) = str ''shenzhen''"
    by (simp add: str_def)
  with p createCountryCodes_forms[of sampleRuntime] show ?thesis by blast
qed

section \<open>Driver: which lines contribute\<close>

lemma lineCountryCodes_not_china: "\<not> isChinaLine ipdb line \<Longrightarrow> lineCountryCodes rt ipdb line = []"
  by (simp add: isChinaLine_def lineCountryCodes_def split: option.splits)

lemma processLine_not_china: "\<not> isChinaLine ipdb line \<Longrightarrow> processLine rt ipdb entries line = entries"
  by (simp add: processLine_codes lineCountryCodes_not_china)

lemma foldl_processLine_filter:
  "foldl (processLine rt ipdb) entries lines
     = foldl (processLine rt ipdb) entries (filter (isChinaLine ipdb) lines)"
  by (induction lines arbitrary: entries) (simp_all add: processLine_not_china)

lemma foldl_processLine_none:
  "list_all (\<lambda>line. \<not> isChinaLine ipdb line) lines \<Longrightarrow> foldl (processLine rt ipdb) entries lines = entries"
  by (induction lines arbitrary: entries) (simp_all add: processLine_not_china)

text \<open>
  C8. A country name other than the one recognised value produces no country code; a
  line whose record has another country generates nothing and leaves the table as it was;
  so the table the driver builds is the one built from the China lines alone.
\<close>

theorem only_china_lines_contribute:
  "(country \<noteq> zhongguo \<longrightarrow> createCountryCodes rt country region city ipv isp = [])
   \<and> (parseLine ipdb line = Some r \<and> country_name r \<noteq> zhongguo \<longrightarrow>
        lineCountryCodes rt ipdb line = [] \<and> processLine rt ipdb entries line = entries)
   \<and> foldl (processLine rt ipdb) entries lines
        = foldl (processLine rt ipdb) entries (filter (isChinaLine ipdb) lines)
   \<and> buildEntries rt inputFile content
        = foldl (processLine rt (extname inputFile = str ''.ipdb'')) []
            (filter (isChinaLine (extname inputFile = str ''.ipdb'')) (readLines rt content))"
proof -
  have 1: "country \<noteq> zhongguo \<longrightarrow> createCountryCodes rt country region city ipv isp = []"
    by (simp add: createCountryCodes_other)
  have 2: "parseLine ipdb line = Some r \<and> country_name r \<noteq> zhongguo \<longrightarrow>
        lineCountryCodes rt ipdb line = [] \<and> processLine rt ipdb entries line = entries"
  proof
    assume "parseLine ipdb line = Some r \<and> country_name r \<noteq> zhongguo"
    then have "\<not> isChinaLine ipdb line" by (simp add: isChinaLine_def)
    then show "lineCountryCodes rt ipdb line = [] \<and> processLine rt ipdb entries line = entries"
      by (simp add: lineCountryCodes_not_china processLine_not_china)
  qed
  have 3: "foldl (processLine rt ipdb) entries lines
        = foldl (processLine rt ipdb) entries (filter (isChinaLine ipdb) lines)"
    by (rule foldl_processLine_filter)
  have 4: "buildEntries rt inputFile content
        = foldl (processLine rt (extname inputFile = str ''.ipdb'')) []
            (filter (isChinaLine (extname inputFile = str ''.ipdb'')) (readLines rt content))"
    unfolding buildEntries_def by (rule foldl_processLine_filter)
  from 1 2 3 4 show ?thesis by blast
qed

lemma meiguo_plain: "0x7C \<notin> set meiguo" "meiguo \<noteq> []" "\<not> isWhiteSpace (hd meiguo)" "meiguo \<noteq> zhongguo"
  by (simp_all add: meiguo_def isWhiteSpace_def zhongguo_def)

lemma parseLine_pipe_meiguo:
  "parseLine False (pipeLine meiguo beijing beijing dianxin) =
     Some \<lparr>country_name = meiguo, region_name = beijing, city_name = beijing,
           isp_domain = dianxin\<rparr>"
  by (simp add: parseLine_def parseTextLine_def trim_pipeLine js_split_pipeLine names_plain
      names_nonempty meiguo_plain Let_def or_str_def)

theorem only_china_lines_contribute_witness:
  "meiguo \<noteq> zhongguo
   \<and> createCountryCodes sampleRuntime meiguo beijing beijing (str ''4'') dianxin = []
   \<and> parseLine False (pipeLine meiguo beijing beijing dianxin) =
       Some \<lparr>country_name = meiguo, region_name = beijing, city_name = beijing,
             isp_domain = dianxin\<rparr>
   \<and> processLine sampleRuntime False [] (pipeLine meiguo beijing beijing dianxin) = []"
  using only_china_lines_contribute[of meiguo sampleRuntime beijing beijing "str ''4''" dianxin False
      "pipeLine meiguo beijing beijing dianxin"
      "\<lparr>country_name = meiguo, region_name = beijing, city_name = beijing, isp_domain = dianxin\<rparr>"
      "[]"]
  by (simp add: meiguo_plain parseLine_pipe_meiguo)

lemma buildEntries_none:
  "list_all (\<lambda>line. \<not> isChinaLine (extname inputFile = str ''.ipdb'') line) (readLines rt content)
   \<Longrightarrow> buildEntries rt inputFile content = []"
  by (simp add: buildEntries_def foldl_processLine_none)

lemma readLines_blank:
  "list_all (\<lambda>line. trim line = []) (js_split 0xA (decodeUtf8 rt content)) \<Longrightarrow>
   readLines rt content = []"
  by (simp add: readLines_def Let_def list_all_iff filter_empty_conv)

lemma le32_0: "le32 0 = [0, 0, 0, 0]"
  by (simp add: le32_def)

text \<open>
  C10. When the input file exists and none of its non-blank lines is a China record
  (they fail to parse or name another country; an empty or blank file has no such line
  at all), \<open>generateGeoipDat\<close> returns normally, stores exactly the four bytes
  \<open>00 00 00 00\<close> under the output path (creating or replacing it) and prints the
  summary line with the count 0.
\<close>

theorem no_entries_writes_zero_count:
  "files w inputFile = Some content \<Longrightarrow>
   list_all (\<lambda>line. \<not> isChinaLine (extname inputFile = str ''.ipdb'') line) (readLines rt content) \<Longrightarrow>
   generateGeoipDat rt inputFile outputFile w =
     Inr (w\<lparr>files := (files w)(outputFile \<mapsto> [0, 0, 0, 0]),
            console := console w @
              [(Stdout, str ''Generated '' @ outputFile @ str '' with 0 entries'')]\<rparr>)"
  using writeUInt32LE_nat[of 0]
  by (simp add: generateGeoipDat_def buildEntries_none le32_0 decimal.simps[of 0])
     (simp add: str_def)

section \<open>Driver: the output file\<close>

lemma foldl_processLine_concat:
  "foldl (processLine rt ipdb) m lines
     = foldl addCountryCode m (concat (map (lineCountryCodes rt ipdb) lines))"
  by (induction lines arbitrary: m) (simp_all add: processLine_codes)

lemma buildEntries_codes:
  "buildEntries rt inputFile content = foldl addCountryCode [] (allCountryCodes rt inputFile content)"
  by (simp add: buildEntries_def allCountryCodes_def foldl_processLine_concat)

lemma keys_Map_push: "map fst (Map_push m k xs) = map fst m"
  by (induction m) (auto simp: Map_push_def)

lemma keys_addCountryCode:
  "map fst (addCountryCode m c) = (if c \<in> set (map fst m) then map fst m else map fst m @ [c])"
  by (simp add: addCountryCode_def Map_has_def Map_set_def keys_Map_push Let_def)

lemma set_firstSeen: "set (firstSeen xs) = set xs"
  by (induction xs) auto

lemma distinct_firstSeen: "distinct (firstSeen xs)"
  by (induction xs) (auto simp: distinct_removeAll)

lemma filter_removeAll_in: "c \<in> A \<Longrightarrow> filter (\<lambda>x. x \<notin> A) (removeAll c xs) = filter (\<lambda>x. x \<notin> A) xs"
  by (induction xs) auto

lemma filter_removeAll_out:
  "filter (\<lambda>x. x \<notin> insert c A) xs = filter (\<lambda>x. x \<notin> A) (removeAll c xs)"
  by (induction xs) auto

lemma keys_foldl_addCountryCode:
  "map fst (foldl addCountryCode m cs)
     = map fst m @ filter (\<lambda>c. c \<notin> set (map fst m)) (firstSeen cs)"
proof (induction cs arbitrary: m)
  case Nil
  show ?case by simp
next
  case (Cons c cs)
  show ?case
  proof (cases "c \<in> set (map fst m)")
    case True
    then show ?thesis
      using filter_removeAll_in[of c "set (map fst m)" "firstSeen cs"]
      by (simp add: Cons.IH keys_addCountryCode)
  next
    case False
    then show ?thesis
      using filter_removeAll_out[of c "set (map fst m)" "firstSeen cs"]
      by (simp add: Cons.IH keys_addCountryCode)
  qed
qed

lemma keys_buildEntries:
  "map fst (buildEntries rt inputFile content) = firstSeen (allCountryCodes rt inputFile content)"
  by (simp add: buildEntries_codes keys_foldl_addCountryCode)

lemma length_buildEntries:
  "length (buildEntries rt inputFile content) = card (set (allCountryCodes rt inputFile content))"
proof -
  have "length (buildEntries rt inputFile content)
          = length (firstSeen (allCountryCodes rt inputFile content))"
    using keys_buildEntries[of rt inputFile content, symmetric] by (simp del: keys_buildEntries)
  also have "\<dots> = card (set (firstSeen (allCountryCodes rt inputFile content)))"
    by (simp add: distinct_card distinct_firstSeen)
  finally show ?thesis by (simp add: set_firstSeen)
qed

lemma writeEntries_eq:
  "list_all (\<lambda>e. length (Buffer_from_utf8 (fst e)) < 2 ^ 32) entries \<Longrightarrow>
   writeEntries entries fileBuffer
     = Inr (fileBuffer @ concat (map (\<lambda>e. geoIpEntryBytes (fst e) (snd e)) entries))"
proof (induction entries arbitrary: fileBuffer)
  case Nil
  show ?case by simp
next
  case (Cons e entries)
  obtain c cidrs where e: "e = (c, cidrs)" by (cases e)
  from Cons.prems have "length (Buffer_from_utf8 c) < 2 ^ 32"
    and "list_all (\<lambda>e. length (Buffer_from_utf8 (fst e)) < 2 ^ 32) entries"
    by (simp_all add: e)
  then show ?case by (simp add: e writeGeoIpEntry_eq Cons.IH)
qed

text \<open>
  C2. When the input file exists, let N be the number of distinct country codes its
  lines generate (N and the UTF-8 length of every code fitting their 4-byte fields).
  Then \<open>generateGeoipDat\<close> stores under the output path the 4-byte little-endian N
  followed by the encodings of the N entries of the table, concatenated with nothing in
  between; the table has exactly N entries, its keys are the generated codes in the
  order of their first occurrence, and each entry's bytes are what \<open>writeGeoIpEntry\<close>
  returns for it.
\<close>

theorem generateGeoipDat_file_format:
  assumes "files w inputFile = Some content"
    and "card (set (allCountryCodes rt inputFile content)) < 2 ^ 32"
    and "list_all (\<lambda>c. length (Buffer_from_utf8 c) < 2 ^ 32) (allCountryCodes rt inputFile content)"
  shows "generateGeoipDat rt inputFile outputFile w =
           Inr (w\<lparr>files := (files w)(outputFile \<mapsto>
                    le32 (card (set (allCountryCodes rt inputFile content)))
                    @ concat (map (\<lambda>e. geoIpEntryBytes (fst e) (snd e))
                               (buildEntries rt inputFile content))),
                  console := console w @
                    [(Stdout, str ''Generated '' @ outputFile @ str '' with ''
                        @ decimal (card (set (allCountryCodes rt inputFile content)))
                        @ str '' entries'')]\<rparr>)
         \<and> length (buildEntries rt inputFile content)
             = card (set (allCountryCodes rt inputFile content))
         \<and> map fst (buildEntries rt inputFile content)
             = firstSeen (allCountryCodes rt inputFile content)
         \<and> list_all (\<lambda>e. writeGeoIpEntry (fst e) (snd e) = Inr (geoIpEntryBytes (fst e) (snd e)))
              (buildEntries rt inputFile content)"
proof -
  let ?entries = "buildEntries rt inputFile content"
  let ?codes = "allCountryCodes rt inputFile content"
  have len: "length ?entries = card (set ?codes)" by (rule length_buildEntries)
  have keys: "map fst ?entries = firstSeen ?codes" by (rule keys_buildEntries)
  have "set (map fst ?entries) = set ?codes" by (simp only: keys set_firstSeen)
  with assms(3) have ok: "list_all (\<lambda>e. length (Buffer_from_utf8 (fst e)) < 2 ^ 32) ?entries"
    by (auto simp: list_all_iff)
  then have enc: "list_all (\<lambda>e. writeGeoIpEntry (fst e) (snd e) = Inr (geoIpEntryBytes (fst e) (snd e)))
              ?entries"
    by (auto simp: list_all_iff writeGeoIpEntry_eq)
  have cnt: "writeUInt32LE (int (card (set ?codes))) = Inr (le32 (card (set ?codes)))"
    using assms(2) by (simp add: writeUInt32LE_nat)
  have "generateGeoipDat rt inputFile outputFile w =
           Inr (w\<lparr>files := (files w)(outputFile \<mapsto>
                    le32 (card (set ?codes))
                    @ concat (map (\<lambda>e. geoIpEntryBytes (fst e) (snd e)) ?entries)),
                  console := console w @
                    [(Stdout, str ''Generated '' @ outputFile @ str '' with ''
                        @ decimal (card (set ?codes)) @ str '' entries'')]\<rparr>)"
    using assms(1) by (simp add: generateGeoipDat_def Let_def cnt writeEntries_eq[OF ok] len)
  with len keys enc show ?thesis by blast
qed

subsection \<open>The sample runs\<close>

lemma sampleLine_units:
  "sampleLine = [0x4E2D, 0x56FD, 0x7C, 0x5317, 0x4EAC, 0x7C, 0x5317, 0x4EAC, 0x7C, 0x7535, 0x4FE1]"
  by (simp add: sampleLine_def pipeLine_def zhongguo_def beijing_def dianxin_def)

lemma sample_content:
  "Buffer_from_utf8 (sampleLine @ [0xA]) =
     [0xE4, 0xB8, 0xAD, 0xE5, 0x9B, 0xBD, 0x7C, 0xE5, 0x8C, 0x97, 0xE4, 0xBA, 0xAC, 0x7C,
      0xE5, 0x8C, 0x97, 0xE4, 0xBA, 0xAC, 0x7C, 0xE7, 0x94, 0xB5, 0xE4, 0xBF, 0xA1, 0x0A]"
  by (simp add: sampleLine_units Buffer_from_utf8_def utf8CodePoint_def scalarValue_def
      isHighSurrogate_def isLowSurrogate_def)

lemma sample_decode:
  "sampleDecode (Buffer_from_utf8 (sampleLine @ [0xA])) = sampleLine @ [0xA]"
  unfolding sample_content
  by (simp add: sampleLine_units isContinuation_def threeByteUnit_def singleUnit_def)

lemma sampleLine_plain:
  "sampleLine \<noteq> []" "0xA \<notin> set sampleLine" "trim sampleLine = sampleLine"
  by (simp_all add: sampleLine_units trim_def isWhiteSpace_def)

lemma trim_Nil: "trim [] = []"
  by (simp add: trim_def)

lemma sample_readLines:
  "readLines sampleRuntime (Buffer_from_utf8 (sampleLine @ [0xA])) = [sampleLine]"
  by (simp add: readLines_def sampleRuntime_def sample_decode js_split_append sampleLine_plain
      trim_Nil)

lemma extname_in_txt: "extname (str ''in.txt'') \<noteq> str ''.ipdb''"
  by (simp add: extname_def str_def)

lemma lineCountryCodes_pipe_beijing:
  "lineCountryCodes rt False (pipeLine zhongguo beijing beijing dianxin) = [str ''4-DX-BJ'']"
  by (simp add: lineCountryCodes_def parseLine_pipe_beijing createCountryCodes_zhongguo
      lookup_examples names_nonempty str_append[symmetric])

lemma sample_codes:
  "allCountryCodes sampleRuntime (str ''in.txt'') (Buffer_from_utf8 (sampleLine @ [0xA]))
     = [str ''4-DX-BJ'']"
  by (simp add: allCountryCodes_def sample_readLines extname_in_txt)
     (simp add: sampleLine_def lineCountryCodes_pipe_beijing)

lemma sample_entries:
  "buildEntries sampleRuntime (str ''in.txt'') (Buffer_from_utf8 (sampleLine @ [0xA]))
     = [(str ''4-DX-BJ'', [(str ''192.168.1.0'', 24)])]"
  by (simp add: buildEntries_codes sample_codes addCountryCode_def Map_has_def Map_set_def
      Map_push_def exampleCidrs_def)

lemma addressBytes_example: "addressBytes (str ''192.168.1.0'') = [192, 168, 1, 0]"
proof -
  have "js_split 0x2E (str ''192.168.1.0'') = [str ''192'', str ''168'', str ''1'', str ''0'']"
    by (simp add: str_def)
  then show ?thesis
    by (simp add: addressBytes_def parseInt_small toUint8_small)
qed

lemma le32_small: "le32 (Suc 0) = [1, 0, 0, 0]" "le32 7 = [7, 0, 0, 0]" "le32 8 = [8, 0, 0, 0]"
  "le32 24 = [24, 0, 0, 0]"
  by (simp_all add: le32_def)

lemma sample_entry_bytes:
  "geoIpEntryBytes (str ''4-DX-BJ'') [(str ''192.168.1.0'', 24)] =
     [0x0A, 7, 0, 0, 0, 0x34, 0x2D, 0x44, 0x58, 0x2D, 0x42, 0x4A,
      0x12, 8, 0, 0, 0, 192, 168, 1, 0, 24, 0, 0, 0, 0x18, 0x00]"
proof -
  have len: "length (Buffer_from_utf8 (str ''4-DX-BJ'')) = 7"
    by (simp add: utf8_ascii_sample)
  show ?thesis
    unfolding geoIpEntryBytes_def len
    by (simp add: utf8_ascii_sample cidrMessage_def addressBytes_example le32_small)
qed

theorem generateGeoipDat_file_format_witness:
  "files sampleWorld (str ''in.txt'') = Some (Buffer_from_utf8 (sampleLine @ [0xA]))
   \<and> card (set (allCountryCodes sampleRuntime (str ''in.txt'') (Buffer_from_utf8 (sampleLine @ [0xA])))) = 1
   \<and> (case generateGeoipDat sampleRuntime (str ''in.txt'') (str ''geoip.dat'') sampleWorld of
        Inl e \<Rightarrow> None
      | Inr w' \<Rightarrow> files w' (str ''geoip.dat''))
      = Some [1, 0, 0, 0,
              0x0A, 7, 0, 0, 0, 0x34, 0x2D, 0x44, 0x58, 0x2D, 0x42, 0x4A,
              0x12, 8, 0, 0, 0, 192, 168, 1, 0, 24, 0, 0, 0, 0x18, 0x00]"
proof -
  let ?content = "Buffer_from_utf8 (sampleLine @ [0xA])"
  have f: "files sampleWorld (str ''in.txt'') = Some ?content"
    by (simp add: sampleWorld_def)
  have n: "card (set (allCountryCodes sampleRuntime (str ''in.txt'') ?content)) < 2 ^ 32"
    by (simp add: sample_codes)
  have l: "list_all (\<lambda>c. length (Buffer_from_utf8 c) < 2 ^ 32)
             (allCountryCodes sampleRuntime (str ''in.txt'') ?content)"
    by (simp add: sample_codes utf8_ascii_sample)
  from generateGeoipDat_file_format[OF f n l, of "str ''geoip.dat''"]
  have "generateGeoipDat sampleRuntime (str ''in.txt'') (str ''geoip.dat'') sampleWorld =
           Inr (sampleWorld\<lparr>files := (files sampleWorld)(str ''geoip.dat'' \<mapsto>
                    le32 (card (set (allCountryCodes sampleRuntime (str ''in.txt'') ?content)))
                    @ concat (map (\<lambda>e. geoIpEntryBytes (fst e) (snd e))
                               (buildEntries sampleRuntime (str ''in.txt'') ?content))),
                  console := console sampleWorld @
                    [(Stdout, str ''Generated '' @ str ''geoip.dat'' @ str '' with ''
                        @ decimal (card (set (allCountryCodes sampleRuntime (str ''in.txt'') ?content)))
                        @ str '' entries'')]\<rparr>)"
    by blast
  then show ?thesis
    by (simp add: f sample_codes sample_entries sample_entry_bytes le32_small)
qed

text \<open>
  C9. When the input path names no file, \<open>generateGeoipDat\<close> prints one error line on
  the error stream and returns: no file is created or changed, and nothing is printed on
  the standard output stream (the success line is absent).
\<close>

theorem missing_input_no_write:
  "files w inputFile = None \<Longrightarrow>
   generateGeoipDat rt inputFile outputFile w =
     Inr (w\<lparr>console := console w @
              [(Stderr, str ''Error: Input file '' @ inputFile @ str '' does not exist.'')]\<rparr>)
   \<and> (case generateGeoipDat rt inputFile outputFile w of
         Inl e \<Rightarrow> False
       | Inr w' \<Rightarrow> files w' = files w \<and> filter (\<lambda>l. fst l = Stdout) (console w')
                                           = filter (\<lambda>l. fst l = Stdout) (console w))"
  by (simp add: generateGeoipDat_def)

theorem missing_input_no_write_witness:
  "files sampleWorld (str ''qqwry.ipdb'') = None
   \<and> generateGeoipDat sampleRuntime (str ''qqwry.ipdb'') (str ''geoip.dat'') sampleWorld =
       Inr (sampleWorld\<lparr>console :=
              [(Stderr, str ''Error: Input file qqwry.ipdb does not exist.'')]\<rparr>)"
proof -
  have h: "files sampleWorld (str ''qqwry.ipdb'') = None"
    by (simp add: sampleWorld_def str_def)
  have "console sampleWorld = []" by (simp add: sampleWorld_def)
  with missing_input_no_write[OF h, of sampleRuntime "str ''geoip.dat''"] h
  show ?thesis by (simp add: str_append[symmetric])
qed

lemma foreign_content:
  "Buffer_from_utf8 foreignText =
     [0x55, 0x53, 0x7C, 0x43, 0x41, 0x7C, 0x4C, 0x41, 0x7C, 0x41, 0x54, 0x54, 0x0A, 0x0A,
      0x66, 0x6F, 0x6F]"
  by (simp add: foreignText_def str_def Buffer_from_utf8_def utf8CodePoint_def scalarValue_def
      isHighSurrogate_def isLowSurrogate_def)

lemma foreign_decode:
  "sampleDecode (Buffer_from_utf8 foreignText)
     = foreignText"
  unfolding foreign_content
  by (simp add: foreignText_def str_def isContinuation_def singleUnit_def)

lemma foreign_lines:
  "js_split 0xA foreignText
     = [str ''US|CA|LA|ATT'', [], str ''foo'']"
  by (simp add: foreignText_def str_def)

lemma foreign_trim: "trim (str ''US|CA|LA|ATT'') = str ''US|CA|LA|ATT''" "trim (str ''foo'') = str ''foo''"
  by (simp_all add: trim_def str_def isWhiteSpace_def)

lemma foreign_readLines:
  "readLines sampleRuntime (Buffer_from_utf8 foreignText)
     = [str ''US|CA|LA|ATT'', str ''foo'']"
  by (simp add: readLines_def sampleRuntime_def foreign_decode foreign_lines foreign_trim trim_Nil
      str_eq_Nil)

lemma foreign_split:
  "js_split 0x7C (str ''US|CA|LA|ATT'') = [str ''US'', str ''CA'', str ''LA'', str ''ATT'']"
  "js_split 0x7C (str ''foo'') = [str ''foo'']"
  by (simp_all add: str_def)

lemma foreign_not_china:
  "\<not> isChinaLine False (str ''US|CA|LA|ATT'')" "\<not> isChinaLine False (str ''foo'')"
  by (simp_all add: isChinaLine_def parseLine_def parseTextLine_def foreign_trim foreign_split
      Let_def)
     (simp add: str_def zhongguo_def)

theorem no_entries_writes_zero_count_witness:
  "files foreignWorld (str ''in.txt'')
     = Some (Buffer_from_utf8 foreignText)
   \<and> list_all (\<lambda>line. \<not> isChinaLine (extname (str ''in.txt'') = str ''.ipdb'') line)
        (readLines sampleRuntime (Buffer_from_utf8 foreignText))
   \<and> (case generateGeoipDat sampleRuntime (str ''in.txt'') (str ''geoip.dat'') foreignWorld of
        Inl e \<Rightarrow> None
      | Inr w' \<Rightarrow> files w' (str ''geoip.dat'')) = Some [0, 0, 0, 0]"
proof -
  have f: "files foreignWorld (str ''in.txt'')
     = Some (Buffer_from_utf8 foreignText)"
    by (simp add: foreignWorld_def)
  have l: "list_all (\<lambda>line. \<not> isChinaLine (extname (str ''in.txt'') = str ''.ipdb'') line)
        (readLines sampleRuntime (Buffer_from_utf8 foreignText))"
    by (simp add: foreign_readLines extname_in_txt foreign_not_china)
  from no_entries_writes_zero_count[OF f l, of "str ''geoip.dat''"] f l
  show ?thesis by simp
qed


end
